theory Spec2Isabelle
  imports Main "HOL-Library.Sublist" "HOL-Library.Word"
begin

section \<open>Data model\<close>

text \<open>
  The three tables of the platform (\<open>users\<close>, \<open>assignments\<close>, \<open>submissions\<close>)
  hold rows of the shapes below, both in the SQLite file of the Express server and in the
  in-browser \<open>DatabaseEngine\<close>. A table is the list of its rows in insertion order.

  Time stamps that the code only stores and orders (\<open>created_at\<close>, \<open>submitted_at\<close>) are
  points of a linearly ordered clock. The \<open>deadline\<close> column is the text the professor
  typed: the server never validates it and reads it through \<open>new Date(...)\<close> only when a
  submission arrives.
\<close>

type_synonym time = int

record user =
  u_id :: string
  email :: string
  password_hash :: string
  name :: string
  role :: string
  u_created_at :: time

record assignment =
  a_id :: string
  title :: string
  description :: "string option"
  deadline :: string
  instructions :: "string option"
  created_by :: string
  a_created_at :: time

record submission =
  s_id :: string
  assignment_id :: string
  student_id :: string
  repo_link :: string
  submitted_at :: time
  status :: string

text \<open>
  Every way a call can fail, in the server (the HTTP status and message of the reply) and
  in the browser layer (the message of the rejected promise or of the exception).
\<close>

datatype error =
    Unauthenticated        \<comment> \<open>401 Authentication required\<close>
  | Forbidden              \<comment> \<open>403 Insufficient permissions\<close>
  | ValidationError        \<comment> \<open>400 ... are required; in the form: not a URL, not a GitHub URL\<close>
  | InvalidCredentials     \<comment> \<open>401 Invalid credentials\<close>
  | NotFound               \<comment> \<open>404 Assignment not found\<close>
  | NotFoundOrForbidden    \<comment> \<open>404 Assignment not found or not authorized\<close>
  | DeadlinePassed         \<comment> \<open>400 Assignment deadline has passed\<close>
  | InternalError          \<comment> \<open>500 Internal server error\<close>
  | Unauthorized           \<comment> \<open>browser: Error('Unauthorized')\<close>
  | InvalidCharacterError  \<comment> \<open>browser: btoa on a code unit above 255\<close>
  | UnsupportedSQL         \<comment> \<open>browser: Error('Unsupported SQL operation')\<close>
  | InvalidInsert          \<comment> \<open>browser: Error('Invalid INSERT query')\<close>
  | TypeError              \<comment> \<open>browser: a property read on \<open>null\<close>\<close>

text \<open>A value of a reply object; the object is the list of its keys with their values.\<close>

datatype json = JStr string | JTime time | JUndefined

section \<open>The Express server over SQLite\<close>

record database =
  users :: "user list"
  assignments :: "assignment list"
  submissions :: "submission list"

text \<open>
  The connection is opened with \<open>new sqlite3.Database(...)\<close> and no pragma is ever sent.
  Whether SQLite enforces the \<open>FOREIGN KEY\<close> clauses is a setting of the connection
  (\<open>foreign_keys\<close>, off unless switched on), and the action of
  \<open>submissions.assignment_id\<close> on the deletion of its assignment depends on which of the
  repository's two \<open>CREATE TABLE IF NOT EXISTS\<close> texts created the file: the server's own
  declares none (\<open>NoAction\<close>), the initialisation script's says \<open>ON DELETE CASCADE\<close>.
  Both are parameters of the model.
\<close>

datatype fk_action = NoAction | Cascade

record sqlite =
  foreign_keys :: bool
  on_delete :: fk_action

text \<open>The session of \<open>express-session\<close>: two fields set by a successful login.\<close>

record session =
  userId :: "string option"
  userRole :: "string option"

text \<open>
  JavaScript's \<open>!v\<close> on a value that is a string or absent: absent and the empty string
  are falsy.
\<close>

definition falsy :: "string option \<Rightarrow> bool" where
  "falsy v = (case v of None \<Rightarrow> True | Some s \<Rightarrow> s = [])"

definition requireAuth :: "session \<Rightarrow> error option" where
  "requireAuth sess = (if falsy (userId sess) then Some Unauthenticated else None)"

definition requireRole :: "string \<Rightarrow> session \<Rightarrow> error option" where
  "requireRole r sess =
     (if falsy (userId sess) then Some Unauthenticated
      else if userRole sess = Some r then None
      else Some Forbidden)"

subsection \<open>Assignments: update and delete\<close>

text \<open>The \<open>WHERE id = ? AND created_by = ?\<close> of both statements.\<close>

definition owned_by :: "string \<Rightarrow> string option \<Rightarrow> assignment \<Rightarrow> bool" where
  "owned_by assignmentId uid a = (a_id a = assignmentId \<and> Some (created_by a) = uid)"

text \<open>
  \<open>app.put('/api/assignments/:id')\<close>. The \<open>UPDATE\<close> runs before \<open>this.changes\<close> is
  read, so the model applies it and then counts the rows it matched.
\<close>

definition put_assignment ::
  "database \<Rightarrow> session \<Rightarrow> string \<Rightarrow> string option \<Rightarrow> string option \<Rightarrow> string option \<Rightarrow>
   string option \<Rightarrow> (error + unit) \<times> database" where
  "put_assignment db sess assignmentId title' description' deadline' instructions' =
     (case requireRole ''professor'' sess of
        Some e \<Rightarrow> (Inl e, db)
      | None \<Rightarrow>
          if falsy title' \<or> falsy deadline' then (Inl ValidationError, db)
          else
            let hit = owned_by assignmentId (userId sess);
                changes = length (filter hit (assignments db));
                db' = db\<lparr>assignments :=
                        map (\<lambda>a. if hit a
                                  then a\<lparr>title := the title', description := description',
                                         deadline := the deadline', instructions := instructions'\<rparr>
                                  else a)
                            (assignments db)\<rparr>
            in if changes = 0 then (Inl NotFoundOrForbidden, db') else (Inr (), db'))"

text \<open>
  \<open>app.delete('/api/assignments/:id')\<close>: one \<open>DELETE FROM assignments\<close>. With
  enforcement on, a submission that references a deleted assignment makes the statement
  fail under \<open>NoAction\<close> (the \<open>err\<close> branch, 500) and is deleted with it under
  \<open>Cascade\<close>; with enforcement off the submissions table is not touched.
\<close>

definition delete_assignment ::
  "sqlite \<Rightarrow> database \<Rightarrow> session \<Rightarrow> string \<Rightarrow> (error + unit) \<times> database" where
  "delete_assignment cfg db sess assignmentId =
     (case requireRole ''professor'' sess of
        Some e \<Rightarrow> (Inl e, db)
      | None \<Rightarrow>
          let hit = owned_by assignmentId (userId sess);
              changes = length (filter hit (assignments db));
              referenced = (\<exists>s \<in> set (submissions db). assignment_id s = assignmentId)
          in if 0 < changes \<and> referenced \<and> foreign_keys cfg \<and> on_delete cfg = NoAction
             then (Inl InternalError, db)
             else
               let subs' = (if 0 < changes \<and> foreign_keys cfg \<and> on_delete cfg = Cascade
                            then filter (\<lambda>s. \<not> assignment_id s = assignmentId) (submissions db)
                            else submissions db);
                   db' = db\<lparr>assignments := filter (\<lambda>a. \<not> hit a) (assignments db),
                           submissions := subs'\<rparr>
               in if changes = 0 then (Inl NotFoundOrForbidden, db') else (Inr (), db'))"

subsection \<open>Assignments and submissions: the listings\<close>

text \<open>
  \<open>ORDER BY ... DESC\<close>: the rows sorted on the column, largest first. SQL leaves the
  order of rows with equal keys open, and SQLite's choice depends on the plan of the query
  (a sort of the rows as they are scanned, or a walk down an index on the column). The model
  takes one of the permitted orders, the one that keeps rows with equal keys in table order;
  its result has the rows of the table and is sorted, which is all a permitted order has.
\<close>

definition order_by_desc :: "('a \<Rightarrow> time) \<Rightarrow> 'a list \<Rightarrow> 'a list" where
  "order_by_desc col rows = sort_key (\<lambda>r. - col r) rows"

text \<open>\<open>FROM t JOIN users u ON key = u.id\<close>: one output row for each matching pair.\<close>

definition join_users :: "('a \<Rightarrow> string) \<Rightarrow> 'a list \<Rightarrow> user list \<Rightarrow> ('a \<times> user) list" where
  "join_users key rows us =
     concat (map (\<lambda>r. map (\<lambda>u. (r, u)) (filter (\<lambda>u. key r = u_id u) us)) rows)"

definition join_assignments ::
  "('a \<Rightarrow> string) \<Rightarrow> 'a list \<Rightarrow> assignment list \<Rightarrow> ('a \<times> assignment) list" where
  "join_assignments key rows as =
     concat (map (\<lambda>r. map (\<lambda>a. (r, a)) (filter (\<lambda>a. key r = a_id a) as)) rows)"

text \<open>
  \<open>app.get('/api/assignments')\<close>: every assignment with its creator's name, for every
  authenticated caller; the query has no \<open>WHERE\<close> clause and does not read the role.
\<close>

definition get_assignments :: "database \<Rightarrow> session \<Rightarrow> error + (assignment \<times> string) list" where
  "get_assignments db sess =
     (case requireAuth sess of
        Some e \<Rightarrow> Inl e
      | None \<Rightarrow>
          Inr (map (\<lambda>(a, u). (a, name u))
                 (order_by_desc (\<lambda>(a, u). a_created_at a)
                    (join_users created_by (assignments db) (users db)))))"

text \<open>
  \<open>app.get('/api/submissions')\<close>. A row of the answer is the submission with the
  assignment's title and, for a professor, the student's name and email.
\<close>

record submission_view =
  sv_row :: submission
  sv_assignment_title :: string
  sv_student :: "(string \<times> string) option"

definition get_submissions :: "database \<Rightarrow> session \<Rightarrow> error + submission_view list" where
  "get_submissions db sess =
     (case requireAuth sess of
        Some e \<Rightarrow> Inl e
      | None \<Rightarrow>
          if userRole sess = Some ''professor''
          then Inr (map (\<lambda>((s, u), a). \<lparr>sv_row = s, sv_assignment_title = title a,
                                          sv_student = Some (name u, email u)\<rparr>)
                      (order_by_desc (\<lambda>((s, u), a). submitted_at s)
                         (join_assignments (\<lambda>(s, u). assignment_id s)
                            (join_users student_id (submissions db) (users db))
                            (assignments db))))
          else Inr (map (\<lambda>(s, a). \<lparr>sv_row = s, sv_assignment_title = title a,
                                    sv_student = None\<rparr>)
                      (order_by_desc (\<lambda>(s, a). submitted_at s)
                         (filter (\<lambda>(s, a). Some (student_id s) = userId sess)
                            (join_assignments assignment_id (submissions db)
                               (assignments db))))))"

subsection \<open>Submissions: create or update\<close>

text \<open>
  \<open>now > deadline\<close> on two \<open>Date\<close> objects. \<open>new Date(text)\<close> is the platform's parser:
  a parameter \<open>parse_date\<close> of the handler, \<open>None\<close> for a text it cannot read (an
  invalid date, whose comparison with anything is false).
\<close>

definition date_gt :: "time \<Rightarrow> time option \<Rightarrow> bool" where
  "date_gt now d = (case d of None \<Rightarrow> False | Some t \<Rightarrow> t < now)"

text \<open>
  The statement \<open>INSERT INTO submissions ... ON CONFLICT(assignment_id, student_id) DO
  UPDATE SET repo_link = excluded.repo_link, submitted_at = CURRENT_TIMESTAMP\<close>, with the
  fresh \<open>uuidv4()\<close> as \<open>new_id\<close>. A row with the same pair turns the insertion into the
  update; otherwise the new row must satisfy the other constraints of the table (the primary
  key, and the foreign keys when they are enforced) or the statement fails (\<open>None\<close>).
\<close>

definition upsert_submission ::
  "sqlite \<Rightarrow> database \<Rightarrow> string \<Rightarrow> string \<Rightarrow> string \<Rightarrow> string \<Rightarrow> time \<Rightarrow> database option" where
  "upsert_submission cfg db new_id a s link now =
     (let conflict = (\<lambda>r. assignment_id r = a \<and> student_id r = s)
      in if \<exists>r \<in> set (submissions db). conflict r
         then Some (db\<lparr>submissions :=
                         map (\<lambda>r. if conflict r then r\<lparr>repo_link := link, submitted_at := now\<rparr>
                                   else r)
                             (submissions db)\<rparr>)
         else if new_id \<in> s_id ` set (submissions db) then None
         else if foreign_keys cfg \<and>
                 \<not> (a \<in> a_id ` set (assignments db) \<and> s \<in> u_id ` set (users db))
         then None
         else Some (db\<lparr>submissions := submissions db @
                         [\<lparr>s_id = new_id, assignment_id = a, student_id = s, repo_link = link,
                           submitted_at = now, status = ''submitted''\<rparr>]\<rparr>))"

text \<open>\<open>app.post('/api/submissions')\<close>.\<close>

definition post_submission ::
  "sqlite \<Rightarrow> (string \<Rightarrow> time option) \<Rightarrow> database \<Rightarrow> session \<Rightarrow> string option \<Rightarrow>
   string option \<Rightarrow> time \<Rightarrow> string \<Rightarrow> (error + unit) \<times> database" where
  "post_submission cfg parse_date db sess assignmentId repoLink now new_id =
     (case requireRole ''student'' sess of
        Some e \<Rightarrow> (Inl e, db)
      | None \<Rightarrow>
          if falsy assignmentId \<or> falsy repoLink then (Inl ValidationError, db)
          else
            (case find (\<lambda>a. a_id a = the assignmentId) (assignments db) of
               None \<Rightarrow> (Inl NotFound, db)
             | Some a \<Rightarrow>
                 if date_gt now (parse_date (deadline a)) then (Inl DeadlinePassed, db)
                 else
                   (case upsert_submission cfg db new_id (the assignmentId)
                           (the (userId sess)) (the repoLink) now of
                      None \<Rightarrow> (Inl InternalError, db)
                    | Some db' \<Rightarrow> (Inr (), db'))))"

subsection \<open>Login\<close>

text \<open>
  \<open>app.post('/api/auth/login')\<close>. \<open>bcrypt.compare\<close> is the library's: a parameter. The
  reply is the JSON object the handler builds, as its list of keys and values.
\<close>

definition post_login ::
  "(string \<Rightarrow> string \<Rightarrow> bool) \<Rightarrow> database \<Rightarrow> session \<Rightarrow> string option \<Rightarrow> string option \<Rightarrow>
   (error + (string \<times> json) list) \<times> session" where
  "post_login bcrypt_compare db sess email' password' =
     (if falsy email' \<or> falsy password' then (Inl ValidationError, sess)
      else
        (case find (\<lambda>u. email u = the email') (users db) of
           None \<Rightarrow> (Inl InvalidCredentials, sess)
         | Some u \<Rightarrow>
             if bcrypt_compare (the password') (password_hash u)
             then (Inr [(''id'', JStr (u_id u)), (''email'', JStr (email u)),
                        (''name'', JStr (name u)), (''role'', JStr (role u))],
                   sess\<lparr>userId := Some (u_id u), userRole := Some (role u)\<rparr>)
             else (Inl InvalidCredentials, sess)))"

text \<open>
  The rows \<open>insertSampleData\<close> puts into an empty file, with the bcrypt hash it computed
  and the clock value of the insertion.
\<close>

definition sample_data :: "string \<Rightarrow> time \<Rightarrow> database" where
  "sample_data hashedPassword t =
     \<lparr>users =
        [\<lparr>u_id = ''prof1'', email = ''prof.smith@university.edu'',
          password_hash = hashedPassword, name = ''Dr. Sarah Smith'', role = ''professor'',
          u_created_at = t\<rparr>,
         \<lparr>u_id = ''stud1'', email = ''john.doe@university.edu'',
          password_hash = hashedPassword, name = ''John Doe'', role = ''student'',
          u_created_at = t\<rparr>,
         \<lparr>u_id = ''stud2'', email = ''jane.smith@university.edu'',
          password_hash = hashedPassword, name = ''Jane Smith'', role = ''student'',
          u_created_at = t\<rparr>],
      assignments =
        [\<lparr>a_id = ''assign1'', title = ''Web Development Project'',
          description =
            Some ''Create a responsive website using HTML, CSS, and JavaScript. Include at least 3 pages and implement modern design principles.'',
          deadline = ''2025-09-15T23:59:59'',
          instructions = Some ''Submit your GitHub repository link containing the complete project code.'',
          created_by = ''prof1'', a_created_at = t\<rparr>,
         \<lparr>a_id = ''assign2'', title = ''Database Design Assignment'',
          description =
            Some ''Design and implement a normalized database schema for a library management system.'',
          deadline = ''2025-09-20T23:59:59'',
          instructions = Some ''Include ER diagram, SQL scripts, and documentation in your repository.'',
          created_by = ''prof1'', a_created_at = t\<rparr>],
      submissions =
        [\<lparr>s_id = ''sub1'', assignment_id = ''assign1'', student_id = ''stud1'',
          repo_link = ''https://github.com/johndoe/web-dev-project'', submitted_at = t,
          status = ''submitted''\<rparr>]\<rparr>"

text \<open>Sessions as a login leaves them.\<close>

definition prof1_session :: session where
  "prof1_session = \<lparr>userId = Some ''prof1'', userRole = Some ''professor''\<rparr>"

definition stud1_session :: session where
  "stud1_session = \<lparr>userId = Some ''stud1'', userRole = Some ''student''\<rparr>"

definition stud2_session :: session where
  "stud2_session = \<lparr>userId = Some ''stud2'', userRole = Some ''student''\<rparr>"

definition anonymous :: session where
  "anonymous = \<lparr>userId = None, userRole = None\<rparr>"

text \<open>\<open>bcrypt.compare\<close> on the sample data: the one password that verifies.\<close>

definition sample_bcrypt_compare :: "string \<Rightarrow> string \<Rightarrow> bool" where
  "sample_bcrypt_compare password hash = (password = ''password123'')"

text \<open>
  \<open>new Date(text)\<close> on the deadlines of the sample data, on a machine whose time zone
  is UTC. Time stamps are written as the number \<open>yyyymmddhhmmss\<close>, which orders them
  as the clock does.
\<close>

definition sample_parse_date :: "string \<Rightarrow> time option" where
  "sample_parse_date text =
     (if text = ''2025-09-15T23:59:59'' then Some 20250915235959
      else if text = ''2025-09-20T23:59:59'' then Some 20250920235959
      else if text = ''2025-09-15T23:59:59.000Z'' then Some 20250915235959
      else if text = ''2025-09-20T23:59:59.000Z'' then Some 20250920235959
      else None)"

section \<open>The in-browser layer: \<open>DatabaseEngine\<close> and \<open>APIService\<close>\<close>

subsection \<open>Strings\<close>

text \<open>
  A JavaScript string is a sequence of 16-bit code units. The model keeps that for the one
  string whose code units matter, the password handed to \<open>btoa\<close>; every other string is
  only compared and searched, and is a \<open>string\<close>.
\<close>

type_synonym jsstring = "16 word list"

definition js :: "string \<Rightarrow> jsstring" where
  "js s = map (\<lambda>c. of_nat (of_char c)) s"

text \<open>
  \<open>s.includes(t)\<close>, \<open>s.startsWith(t)\<close>, \<open>toLowerCase\<close> and \<open>trim\<close>, on text whose
  characters are code points up to 255. Below 256 the letters with a lower-case form are
  \<open>A\<close> to \<open>Z\<close> and the code points 192 to 222 without 215 (the multiplication sign), each
  32 below its lower-case form; the white space and line terminators that \<open>trim\<close> removes
  are the code points 9 to 13, 32 and 160 (the no-break space).
\<close>

fun includes_str :: "string \<Rightarrow> string \<Rightarrow> bool" where
  "includes_str [] t = (t = [])"
| "includes_str (c # cs) t = (prefix t (c # cs) \<or> includes_str cs t)"

definition startsWith :: "string \<Rightarrow> string \<Rightarrow> bool" where
  "startsWith s t = prefix t s"

definition lower_char :: "char \<Rightarrow> char" where
  "lower_char c =
     (let n = (of_char c :: nat)
      in if (65 \<le> n \<and> n \<le> 90) \<or> (192 \<le> n \<and> n \<le> 222 \<and> \<not> n = 215) then char_of (n + 32)
         else c)"

definition toLowerCase :: "string \<Rightarrow> string" where
  "toLowerCase s = map lower_char s"

definition is_space :: "char \<Rightarrow> bool" where
  "is_space c = ((of_char c :: nat) \<in> {9, 10, 11, 12, 13, 32, 160})"

definition trim :: "string \<Rightarrow> string" where
  "trim s = rev (dropWhile is_space (rev (dropWhile is_space s)))"

subsection \<open>The simulated password hash\<close>

text \<open>
  \<open>btoa\<close> throws on a code unit above 255 and otherwise encodes the code units, as
  bytes, in base 64 with padding.
\<close>

definition base64_alphabet :: string where
  "base64_alphabet = ''ABCDEFGHIJKLMNOPQRSTUVWXYZabcdefghijklmnopqrstuvwxyz0123456789+/''"

definition base64_digit :: "nat \<Rightarrow> char" where
  "base64_digit n = base64_alphabet ! (n mod 64)"

fun base64 :: "nat list \<Rightarrow> string" where
  "base64 [] = []"
| "base64 [a] = [base64_digit (a div 4), base64_digit (a mod 4 * 16), CHR ''='', CHR ''='']"
| "base64 [a, b] =
     [base64_digit (a div 4), base64_digit (a mod 4 * 16 + b div 16),
      base64_digit (b mod 16 * 4), CHR ''='']"
| "base64 (a # b # c # rest) =
     [base64_digit (a div 4), base64_digit (a mod 4 * 16 + b div 16),
      base64_digit (b mod 16 * 4 + c div 64), base64_digit (c mod 64)] @ base64 rest"

definition btoa :: "jsstring \<Rightarrow> error + string" where
  "btoa s =
     (if \<exists>c \<in> set s. 255 < c then Inl InvalidCharacterError else Inr (base64 (map unat s)))"

text \<open>The characters that \<open>replace(/[^a-zA-Z0-9]/g, '')\<close> keeps.\<close>

definition alnum :: "char \<Rightarrow> bool" where
  "alnum c =
     (let n = (of_char c :: nat)
      in (97 \<le> n \<and> n \<le> 122) \<or> (65 \<le> n \<and> n \<le> 90) \<or> (48 \<le> n \<and> n \<le> 57))"

definition hashPassword :: "jsstring \<Rightarrow> error + string" where
  "hashPassword password =
     (case btoa (password @ js ''salt'') of
        Inl e \<Rightarrow> Inl e
      | Inr b \<Rightarrow> Inr (''$2b$10$'' @ take 50 (filter alnum b)))"

definition verifyPassword :: "jsstring \<Rightarrow> string \<Rightarrow> error + bool" where
  "verifyPassword password hash =
     (case hashPassword password of Inl e \<Rightarrow> Inl e | Inr h \<Rightarrow> Inr (h = hash))"

subsection \<open>The engine: tables and indexes\<close>

text \<open>
  The indexes hold the very objects of the tables. Users and assignments are never changed
  after they are stored, so their indexes hold the rows; a submission is changed in place by
  \<open>executeUpdate\<close>, so its indexes hold references, and the reference of a submission is
  its position in \<open>tables.submissions\<close>, an array that only ever grows. The table
  \<open>sessions\<close> stays empty and is left out, as are the event listeners, which only notify
  the page.
\<close>

record engine =
  tables_users :: "user list"
  tables_assignments :: "assignment list"
  tables_submissions :: "submission list"
  users_email :: "string \<rightharpoonup> user"
  assignments_created_by :: "string \<rightharpoonup> assignment list"
  submissions_assignment_id :: "string \<rightharpoonup> nat list"
  submissions_student_id :: "string \<rightharpoonup> nat list"

text \<open>\<open>if (!index.has(k)) index.set(k, []); index.get(k).push(v)\<close>\<close>

definition push_index :: "(string \<rightharpoonup> 'a list) \<Rightarrow> string \<Rightarrow> 'a \<Rightarrow> (string \<rightharpoonup> 'a list)" where
  "push_index index k v =
     (case index k of None \<Rightarrow> index(k \<mapsto> [v]) | Some vs \<Rightarrow> index(k \<mapsto> vs @ [v]))"

definition createIndexes :: "engine \<Rightarrow> engine" where
  "createIndexes eng =
     eng\<lparr>users_email := foldl (\<lambda>m u. m(email u \<mapsto> u)) Map.empty (tables_users eng),
         assignments_created_by :=
           foldl (\<lambda>m a. push_index m (created_by a) a) Map.empty (tables_assignments eng),
         submissions_assignment_id :=
           foldl (\<lambda>m (i, s). push_index m (assignment_id s) i) Map.empty
             (enumerate 0 (tables_submissions eng)),
         submissions_student_id :=
           foldl (\<lambda>m (i, s). push_index m (student_id s) i) Map.empty
             (enumerate 0 (tables_submissions eng))\<rparr>"

definition updateIndexes_assignments :: "engine \<Rightarrow> assignment \<Rightarrow> engine" where
  "updateIndexes_assignments eng record =
     eng\<lparr>assignments_created_by :=
           push_index (assignments_created_by eng) (created_by record) record\<rparr>"

definition updateIndexes_submissions :: "engine \<Rightarrow> nat \<Rightarrow> submission \<Rightarrow> engine" where
  "updateIndexes_submissions eng ref record =
     eng\<lparr>submissions_assignment_id :=
           push_index (submissions_assignment_id eng) (assignment_id record) ref,
         submissions_student_id :=
           push_index (submissions_student_id eng) (student_id record) ref\<rparr>"

text \<open>The tables of \<open>initializeDatabase\<close>, given the hash of the sample password.\<close>

definition initial_tables :: "string \<Rightarrow> engine" where
  "initial_tables hash =
     \<lparr>tables_users =
        [\<lparr>u_id = ''prof1'', email = ''prof.smith@university.edu'', password_hash = hash,
          name = ''Dr. Sarah Smith'', role = ''professor'', u_created_at = 20250115090000\<rparr>,
         \<lparr>u_id = ''stud1'', email = ''john.doe@university.edu'', password_hash = hash,
          name = ''John Doe'', role = ''student'', u_created_at = 20250120103000\<rparr>,
         \<lparr>u_id = ''stud2'', email = ''jane.smith@university.edu'', password_hash = hash,
          name = ''Jane Smith'', role = ''student'', u_created_at = 20250122141500\<rparr>],
      tables_assignments =
        [\<lparr>a_id = ''assign1'', title = ''Web Development Project'',
          description =
            Some ''Create a responsive website using HTML, CSS, and JavaScript. Include at least 3 pages and implement modern design principles.'',
          deadline = ''2025-09-15T23:59:59.000Z'',
          instructions = Some ''Submit your GitHub repository link containing the complete project code.'',
          created_by = ''prof1'', a_created_at = 20250820100000\<rparr>,
         \<lparr>a_id = ''assign2'', title = ''Database Design Assignment'',
          description =
            Some ''Design and implement a normalized database schema for a library management system.'',
          deadline = ''2025-09-20T23:59:59.000Z'',
          instructions = Some ''Include ER diagram, SQL scripts, and documentation in your repository.'',
          created_by = ''prof1'', a_created_at = 20250822143000\<rparr>],
      tables_submissions =
        [\<lparr>s_id = ''sub1'', assignment_id = ''assign1'', student_id = ''stud1'',
          repo_link = ''https://github.com/johndoe/web-dev-project'',
          submitted_at = 20250825163000, status = ''submitted''\<rparr>],
      users_email = Map.empty, assignments_created_by = Map.empty,
      submissions_assignment_id = Map.empty, submissions_student_id = Map.empty\<rparr>"

text \<open>The constructor: it fails if hashing the sample password does.\<close>

definition initializeDatabase :: "error + engine" where
  "initializeDatabase =
     (case hashPassword (js ''password123'') of
        Inl e \<Rightarrow> Inl e
      | Inr hash \<Rightarrow> Inr (createIndexes (initial_tables hash)))"

subsection \<open>The engine: queries\<close>

text \<open>
  What \<open>query\<close> returns: a user or \<open>undefined\<close> from the email index, an array of rows,
  the row an insertion or update produced, or \<open>null\<close>.
\<close>

datatype qresult =
    User_row "user option"
  | User_rows "user list"
  | Assignment_rows "assignment list"
  | Submission_rows "submission list"
  | Assignment_row assignment
  | Submission_row submission
  | No_rows
  | Null

text \<open>
  \<open>params[i]\<close>, \<open>undefined\<close> past the end. Every caller passes all the parameters its
  statement reads; a row field set from an absent parameter is stored as the empty text.
\<close>

definition param :: "string list \<Rightarrow> nat \<Rightarrow> string option" where
  "param params i = (if i < length params then Some (params ! i) else None)"

definition text_of :: "string option \<Rightarrow> string" where
  "text_of v = (case v of None \<Rightarrow> [] | Some s \<Rightarrow> s)"

definition index_get :: "(string \<rightharpoonup> 'a) \<Rightarrow> string option \<Rightarrow> 'a option" where
  "index_get index k = (case k of None \<Rightarrow> None | Some key \<Rightarrow> index key)"

text \<open>The submissions behind a list of references, as they are when the list is read.\<close>

definition rows_at :: "submission list \<Rightarrow> nat list \<Rightarrow> submission list" where
  "rows_at table refs = concat (map (\<lambda>i. take 1 (drop i table)) refs)"

definition executeSelect :: "engine \<Rightarrow> string \<Rightarrow> string list \<Rightarrow> qresult" where
  "executeSelect eng sql params =
     (if includes_str sql ''from users'' then
        (if includes_str sql ''where email = ?''
         then User_row (index_get (users_email eng) (param params 0))
         else User_rows (tables_users eng))
      else if includes_str sql ''from assignments'' then
        (if includes_str sql ''where created_by = ?''
         then Assignment_rows
                (case index_get (assignments_created_by eng) (param params 0) of
                   None \<Rightarrow> [] | Some rows \<Rightarrow> rows)
         else Assignment_rows (tables_assignments eng))
      else if includes_str sql ''from submissions'' then
        (if includes_str sql ''where student_id = ?''
         then Submission_rows
                (case index_get (submissions_student_id eng) (param params 0) of
                   None \<Rightarrow> [] | Some refs \<Rightarrow> rows_at (tables_submissions eng) refs)
         else if includes_str sql ''where assignment_id = ?''
         then Submission_rows
                (case index_get (submissions_assignment_id eng) (param params 0) of
                   None \<Rightarrow> [] | Some refs \<Rightarrow> rows_at (tables_submissions eng) refs)
         else Submission_rows (tables_submissions eng))
      else No_rows)"

text \<open>
  \<open>executeInsert\<close>; \<open>new_id\<close> is the text built from the clock and \<open>Math.random()\<close>.
\<close>

definition executeInsert ::
  "engine \<Rightarrow> string \<Rightarrow> string list \<Rightarrow> time \<Rightarrow> string \<Rightarrow> (error + qresult) \<times> engine" where
  "executeInsert eng sql params now new_id =
     (if includes_str sql ''into assignments'' then
        (let assignment =
               \<lparr>a_id = new_id, title = text_of (param params 0),
                description = param params 1, deadline = text_of (param params 2),
                instructions = param params 3, created_by = text_of (param params 4),
                a_created_at = now\<rparr>
         in (Inr (Assignment_row assignment),
             updateIndexes_assignments
               (eng\<lparr>tables_assignments := tables_assignments eng @ [assignment]\<rparr>) assignment))
      else if includes_str sql ''into submissions'' then
        (let submission =
               \<lparr>s_id = new_id, assignment_id = text_of (param params 0),
                student_id = text_of (param params 1), repo_link = text_of (param params 2),
                submitted_at = now, status = ''submitted''\<rparr>
         in (Inr (Submission_row submission),
             updateIndexes_submissions
               (eng\<lparr>tables_submissions := tables_submissions eng @ [submission]\<rparr>)
               (length (tables_submissions eng)) submission))
      else (Inl InvalidInsert, eng))"

text \<open>\<open>xs.find(p)\<close> followed by an assignment to fields of the object found.\<close>

fun update_first :: "('a \<Rightarrow> bool) \<Rightarrow> ('a \<Rightarrow> 'a) \<Rightarrow> 'a list \<Rightarrow> 'a list" where
  "update_first p f [] = []"
| "update_first p f (x # xs) = (if p x then f x # xs else x # update_first p f xs)"

definition executeUpdate :: "engine \<Rightarrow> string \<Rightarrow> string list \<Rightarrow> time \<Rightarrow> qresult \<times> engine" where
  "executeUpdate eng sql params now =
     (if includes_str sql ''submissions set'' then
        (let hit = (\<lambda>s. Some (assignment_id s) = param params 1 \<and>
                         Some (student_id s) = param params 2);
             change = (\<lambda>s. s\<lparr>repo_link := text_of (param params 0), submitted_at := now\<rparr>)
         in case find hit (tables_submissions eng) of
              Some submission \<Rightarrow>
                (Submission_row (change submission),
                 eng\<lparr>tables_submissions := update_first hit change (tables_submissions eng)\<rparr>)
            | None \<Rightarrow> (Null, eng))
      else (Null, eng))"

text \<open>\<open>xs.findIndex(p)\<close> followed by \<open>xs.splice(index, 1)\<close>. The indexes are not touched.\<close>

fun delete_first :: "('a \<Rightarrow> bool) \<Rightarrow> 'a list \<Rightarrow> 'a list" where
  "delete_first p [] = []"
| "delete_first p (x # xs) = (if p x then xs else x # delete_first p xs)"

definition executeDelete :: "engine \<Rightarrow> string \<Rightarrow> string list \<Rightarrow> qresult \<times> engine" where
  "executeDelete eng sql params =
     (if includes_str sql ''from assignments where id = ?'' then
        (let hit = (\<lambda>a. Some (a_id a) = param params 0)
         in case find hit (tables_assignments eng) of
              Some deleted \<Rightarrow>
                (Assignment_row deleted,
                 eng\<lparr>tables_assignments := delete_first hit (tables_assignments eng)\<rparr>)
            | None \<Rightarrow> (Null, eng))
      else (Null, eng))"

text \<open>
  \<open>executeQuery\<close>, which \<open>query\<close> wraps with a time measurement and two notifications.
\<close>

definition executeQuery ::
  "engine \<Rightarrow> string \<Rightarrow> string list \<Rightarrow> time \<Rightarrow> string \<Rightarrow> (error + qresult) \<times> engine" where
  "executeQuery eng sql0 params now new_id =
     (let sql = trim (toLowerCase sql0)
      in if startsWith sql ''select'' then (Inr (executeSelect eng sql params), eng)
         else if startsWith sql ''insert'' then executeInsert eng sql params now new_id
         else if startsWith sql ''update''
         then (case executeUpdate eng sql params now of (r, eng') \<Rightarrow> (Inr r, eng'))
         else if startsWith sql ''delete''
         then (case executeDelete eng sql params of (r, eng') \<Rightarrow> (Inr r, eng'))
         else (Inl UnsupportedSQL, eng))"

subsection \<open>\<open>APIService\<close>\<close>

text \<open>
  The session object of \<open>login\<close>; its \<open>id\<close> is a text made from the clock value kept in
  \<open>createdAt\<close>.
\<close>

record browser_session =
  bs_userId :: string
  bs_user :: user
  bs_createdAt :: time

record api =
  api_db :: engine
  currentSession :: "browser_session option"

definition spread_user :: "user \<Rightarrow> (string \<times> json) list" where
  "spread_user u =
     [(''id'', JStr (u_id u)), (''email'', JStr (email u)),
      (''password_hash'', JStr (password_hash u)), (''name'', JStr (name u)),
      (''role'', JStr (role u)), (''created_at'', JTime (u_created_at u))]"

text \<open>\<open>{...obj, key: value}\<close>\<close>

definition with_key :: "(string \<times> json) list \<Rightarrow> string \<Rightarrow> json \<Rightarrow> (string \<times> json) list" where
  "with_key obj key v =
     (if key \<in> fst ` set obj then map (\<lambda>(k, w). if k = key then (k, v) else (k, w)) obj
      else obj @ [(key, v)])"

text \<open>Whether a reply object carries a value under \<open>password_hash\<close>.\<close>

definition carries_hash :: "(string \<times> json) list \<Rightarrow> bool" where
  "carries_hash obj = (\<exists>(k, v) \<in> set obj. k = ''password_hash'' \<and> \<not> v = JUndefined)"

text \<open>
  \<open>login\<close>. \<open>user && verifyPassword(...)\<close>: for the statement sent the query returns a
  user or \<open>undefined\<close>; any other result that is an object has no \<open>password_hash\<close>, so
  after hashing the comparison is false.
\<close>

definition login ::
  "api \<Rightarrow> string \<Rightarrow> jsstring \<Rightarrow> time \<Rightarrow>
   (error + (string \<times> json) list \<times> browser_session) \<times> api" where
  "login api email' password now =
     (case executeQuery (api_db api) ''SELECT * FROM users WHERE email = ?'' [email'] now [] of
        (Inl e, eng) \<Rightarrow> (Inl e, api\<lparr>api_db := eng\<rparr>)
      | (Inr r, eng) \<Rightarrow>
          (case r of
             User_row None \<Rightarrow> (Inl InvalidCredentials, api\<lparr>api_db := eng\<rparr>)
           | Null \<Rightarrow> (Inl InvalidCredentials, api\<lparr>api_db := eng\<rparr>)
           | User_row (Some user) \<Rightarrow>
               (case verifyPassword password (password_hash user) of
                  Inl e \<Rightarrow> (Inl e, api\<lparr>api_db := eng\<rparr>)
                | Inr ok \<Rightarrow>
                    if ok
                    then (let s = \<lparr>bs_userId = u_id user, bs_user = user, bs_createdAt = now\<rparr>
                          in (Inr (with_key (spread_user user) ''password_hash'' JUndefined, s),
                              api\<lparr>api_db := eng, currentSession := Some s\<rparr>))
                    else (Inl InvalidCredentials, api\<lparr>api_db := eng\<rparr>))
           | _ \<Rightarrow>
               (case hashPassword password of
                  Inl e \<Rightarrow> (Inl e, api\<lparr>api_db := eng\<rparr>)
                | Inr h \<Rightarrow> (Inl InvalidCredentials, api\<lparr>api_db := eng\<rparr>))))"

definition is_professor :: "browser_session option \<Rightarrow> bool" where
  "is_professor cur = (case cur of None \<Rightarrow> False | Some s \<Rightarrow> role (bs_user s) = ''professor'')"

definition is_student :: "browser_session option \<Rightarrow> bool" where
  "is_student cur = (case cur of None \<Rightarrow> False | Some s \<Rightarrow> role (bs_user s) = ''student'')"

text \<open>\<open>getAssignments\<close>: by creator for a professor, the whole table for anyone else.\<close>

definition getAssignments :: "api \<Rightarrow> time \<Rightarrow> (error + qresult) \<times> api" where
  "getAssignments api now =
     (case (if is_professor (currentSession api)
            then executeQuery (api_db api) ''SELECT * FROM assignments WHERE created_by = ?''
                   [bs_userId (the (currentSession api))] now []
            else executeQuery (api_db api) ''SELECT * FROM assignments'' [] now []) of
        (r, eng) \<Rightarrow> (r, api\<lparr>api_db := eng\<rparr>))"

text \<open>
  \<open>createAssignment\<close>, with the four values of the form.
\<close>

definition createAssignment ::
  "api \<Rightarrow> string \<Rightarrow> string \<Rightarrow> string \<Rightarrow> string \<Rightarrow> time \<Rightarrow> string \<Rightarrow> (error + qresult) \<times> api" where
  "createAssignment api title' description' deadline' instructions' now new_id =
     (if is_professor (currentSession api) then
        (case executeQuery (api_db api)
                ''INSERT INTO assignments (title, description, deadline, instructions, created_by) VALUES (?, ?, ?, ?, ?)''
                [title', description', deadline', instructions',
                 bs_userId (the (currentSession api))] now new_id of
           (r, eng) \<Rightarrow> (r, api\<lparr>api_db := eng\<rparr>))
      else (Inl Unauthorized, api))"

text \<open>
  \<open>getSubmissions\<close>: the whole table for a professor, the caller's rows for anyone
  else. Without a session the second branch reads \<open>userId\<close> of \<open>null\<close>; the exception
  is thrown inside the timer callback and the promise is never settled.
\<close>

definition getSubmissions :: "api \<Rightarrow> time \<Rightarrow> (error + qresult) \<times> api" where
  "getSubmissions api now =
     (if is_professor (currentSession api) then
        (case executeQuery (api_db api) ''SELECT * FROM submissions'' [] now [] of
           (r, eng) \<Rightarrow> (r, api\<lparr>api_db := eng\<rparr>))
      else
        (case currentSession api of
           None \<Rightarrow> (Inl TypeError, api)
         | Some s \<Rightarrow>
             (case executeQuery (api_db api) ''SELECT * FROM submissions WHERE student_id = ?''
                     [bs_userId s] now [] of
                (r, eng) \<Rightarrow> (r, api\<lparr>api_db := eng\<rparr>))))"

text \<open>
  \<open>createSubmission\<close>: a look at the table for a row of the same assignment and student,
  then the \<open>UPDATE\<close> or the \<open>INSERT\<close>. \<open>updated || existing\<close> is the row found when the
  update returns \<open>null\<close>. Nothing here reads the deadline.
\<close>

definition createSubmission ::
  "api \<Rightarrow> string \<Rightarrow> string \<Rightarrow> time \<Rightarrow> string \<Rightarrow> (error + qresult) \<times> api" where
  "createSubmission api assignmentId repoLink now new_id =
     (if is_student (currentSession api) then
        (let uid = bs_userId (the (currentSession api))
         in case find (\<lambda>s. assignment_id s = assignmentId \<and> student_id s = uid)
                   (tables_submissions (api_db api)) of
              Some existing \<Rightarrow>
                (case executeQuery (api_db api)
                        ''UPDATE submissions SET repo_link = ? WHERE assignment_id = ? AND student_id = ?''
                        [repoLink, assignmentId, uid] now new_id of
                   (Inl e, eng) \<Rightarrow> (Inl e, api\<lparr>api_db := eng\<rparr>)
                 | (Inr updated, eng) \<Rightarrow>
                     (Inr (if updated = Null then Submission_row existing else updated),
                      api\<lparr>api_db := eng\<rparr>))
            | None \<Rightarrow>
                (case executeQuery (api_db api)
                        ''INSERT INTO submissions (assignment_id, student_id, repo_link) VALUES (?, ?, ?)''
                        [assignmentId, uid, repoLink] now new_id of
                   (r, eng) \<Rightarrow> (r, api\<lparr>api_db := eng\<rparr>)))
      else (Inl Unauthorized, api))"

text \<open>
  The submit handler of the submission form, the only caller of \<open>createSubmission\<close>.
  \<open>new URL(text)\<close> is the platform's parser: a parameter \<open>url_host\<close> that gives the host
  of a text that is a URL and \<open>None\<close> where the constructor throws. The handler only tests
  that it does not throw, then looks for \<open>github.com\<close> anywhere in the text. Every failure
  ends in an error notification.
\<close>

definition submission_form_submit ::
  "(string \<Rightarrow> string option) \<Rightarrow> api \<Rightarrow> string \<Rightarrow> string \<Rightarrow> time \<Rightarrow> string \<Rightarrow>
   (error + qresult) \<times> api" where
  "submission_form_submit url_host api assignmentId repoLink now new_id =
     (case url_host repoLink of
        None \<Rightarrow> (Inl ValidationError, api)
      | Some host \<Rightarrow>
          if includes_str repoLink ''github.com''
          then createSubmission api assignmentId repoLink now new_id
          else (Inl ValidationError, api))"

subsection \<open>Sequences of submissions\<close>

text \<open>
  One student calling create-or-update-submission for one assignment several times in a
  row: each call brings its link, its clock value and its fresh id. The run returns the
  links of the calls that were accepted, in order, and the state after the last call.
\<close>

record submit_call =
  call_link :: string
  call_now :: time
  call_new_id :: string

fun post_submissions ::
  "sqlite \<Rightarrow> (string \<Rightarrow> time option) \<Rightarrow> session \<Rightarrow> string \<Rightarrow> database \<Rightarrow> submit_call list \<Rightarrow>
   string list \<times> database" where
  "post_submissions cfg parse_date sess a db [] = ([], db)"
| "post_submissions cfg parse_date sess a db (c # cs) =
     (case post_submission cfg parse_date db sess (Some a) (Some (call_link c)) (call_now c)
             (call_new_id c) of
        (Inl e, db') \<Rightarrow> post_submissions cfg parse_date sess a db' cs
      | (Inr ok, db') \<Rightarrow>
          (case post_submissions cfg parse_date sess a db' cs of
             (links, db'') \<Rightarrow> (call_link c # links, db'')))"

fun createSubmissions :: "api \<Rightarrow> string \<Rightarrow> submit_call list \<Rightarrow> string list \<times> api" where
  "createSubmissions api a [] = ([], api)"
| "createSubmissions api a (c # cs) =
     (case createSubmission api a (call_link c) (call_now c) (call_new_id c) of
        (Inl e, api') \<Rightarrow> createSubmissions api' a cs
      | (Inr row, api') \<Rightarrow>
          (case createSubmissions api' a cs of
             (links, api'') \<Rightarrow> (call_link c # links, api'')))"

text \<open>The rows of a submissions table for an assignment and a student.\<close>

definition rows_for :: "string \<Rightarrow> string \<Rightarrow> submission list \<Rightarrow> submission list" where
  "rows_for a s table = filter (\<lambda>r. assignment_id r = a \<and> student_id r = s) table"

subsection \<open>Concrete states and inputs\<close>

text \<open>The engine as the constructor leaves it, and the page after student \<open>stud1\<close> logged in.\<close>

definition sample_hash :: string where
  "sample_hash = ''$2b$10$cGFzc3dvcmQxMjNzYWx0''"

definition initial_api :: api where
  "initial_api = \<lparr>api_db = createIndexes (initial_tables sample_hash), currentSession = None\<rparr>"

definition stud1_api :: api where
  "stud1_api =
     snd (login initial_api ''john.doe@university.edu'' (js ''password123'') 20260101090000)"

text \<open>The server's sample data with a second professor and an assignment of theirs.\<close>

definition two_professors :: database where
  "two_professors =
     (let d = sample_data ''h'' 20250801000000
      in d\<lparr>users := users d @
                [\<lparr>u_id = ''prof2'', email = ''prof.jones@university.edu'', password_hash = ''h'',
                  name = ''Dr. Alan Jones'', role = ''professor'',
                  u_created_at = 20250802000000\<rparr>],
            assignments := assignments d @
                [\<lparr>a_id = ''assign3'', title = ''Compilers Project'', description = None,
                  deadline = ''2025-10-01T23:59:59'', instructions = None,
                  created_by = ''prof2'', a_created_at = 20250803000000\<rparr>]\<rparr>)"

text \<open>
  What the URL constructor makes of three texts: the first two are URLs, with the hosts
  given (a host is lower-cased by the parser); the third is not a URL.
\<close>

definition sample_url_host :: "string \<Rightarrow> string option" where
  "sample_url_host text =
     (if text = ''https://example.org/github.com/repo'' then Some ''example.org''
      else if text = ''https://GitHub.com/johndoe/repo'' then Some ''github.com''
      else None)"

text \<open>
  What the claim about the link calls a GitHub domain, for the host of a URL:
  \<open>github.com\<close> or a subdomain of it. It is stated here to say what the claim asks;
  the code has no test on the host.
\<close>

definition is_github_domain :: "string \<Rightarrow> bool" where
  "is_github_domain host = (host = ''github.com'' \<or> suffix ''.github.com'' host)"

text \<open>
  Three calls of one student: a first link, a second an hour later, and a third after the
  deadlines of the sample assignments.
\<close>

definition three_calls :: "submit_call list" where
  "three_calls =
     [\<lparr>call_link = ''https://github.com/s/x'', call_now = 20250901120000, call_new_id = ''id-1''\<rparr>,
      \<lparr>call_link = ''https://github.com/s/y'', call_now = 20250901130000, call_new_id = ''id-2''\<rparr>,
      \<lparr>call_link = ''https://github.com/s/z'', call_now = 20251001120000, call_new_id = ''id-3''\<rparr>]"

text \<open>A list of time stamps that runs from the most recent to the oldest.\<close>

definition newest_first :: "time list \<Rightarrow> bool" where
  "newest_first ts = sorted_wrt (\<lambda>earlier later. later \<le> earlier) ts"

text \<open>The rows of a reply of \<open>getAssignments\<close> and of \<open>getSubmissions\<close>.\<close>

definition listed_assignments :: "error + qresult \<Rightarrow> assignment list" where
  "listed_assignments r = (case r of Inr (Assignment_rows rows) \<Rightarrow> rows | _ \<Rightarrow> [])"

definition listed_submissions :: "error + qresult \<Rightarrow> submission list" where
  "listed_submissions r = (case r of Inr (Submission_rows rows) \<Rightarrow> rows | _ \<Rightarrow> [])"

text \<open>
  The indexes of users and of assignments agree with their tables: what \<open>createIndexes\<close>
  establishes.
\<close>

definition indexed :: "engine \<Rightarrow> bool" where
  "indexed eng =
     (users_email eng = foldl (\<lambda>m u. m(email u \<mapsto> u)) Map.empty (tables_users eng)
      \<and> assignments_created_by eng
          = foldl (\<lambda>m a. push_index m (created_by a) a) Map.empty (tables_assignments eng))"

section \<open>Properties\<close>

subsection \<open>Lists and lookups\<close>

lemma filter_none_length: "length (filter P xs) = 0 \<Longrightarrow> filter (\<lambda>x. \<not> P x) xs = xs"
  by (induction xs) (auto split: if_splits)

lemma map_none_hit: "length (filter P xs) = 0 \<Longrightarrow> map (\<lambda>x. if P x then f x else x) xs = xs"
  by (induction xs) (auto split: if_splits)

lemma no_hit_filter: "\<not> (\<exists>a \<in> set xs. P a) \<Longrightarrow> filter P xs = []"
  by (induction xs) auto

lemma find_first_hit:
  "find P xs = Some x \<Longrightarrow> x \<in> set xs \<and> P x"
  by (induction xs) (auto split: if_splits)

lemma find_none_iff: "find P xs = None \<longleftrightarrow> \<not> (\<exists>x \<in> set xs. P x)"
  by (induction xs) auto

lemma find_some_ex: "(\<exists>x. find p xs = Some x) \<longleftrightarrow> (\<exists>x \<in> set xs. p x)"
  by (induction xs) auto

lemma single_or_none:
  "length xs \<le> 1 \<Longrightarrow> xs = [] \<or> (\<exists>x. xs = [x])"
  by (cases xs) auto

lemma update_first_at:
  assumes "find p xs = Some x"
  shows "\<exists>i < length xs. xs ! i = x \<and> p x \<and> (\<forall>j < i. \<not> p (xs ! j))
           \<and> update_first p f xs = xs[i := f x]"
  using assms
proof (induction xs)
  case Nil
  then show ?case by simp
next
  case (Cons y ys)
  show ?case
  proof (cases "p y")
    case True
    then have "x = y" using Cons.prems by simp
    then show ?thesis using True by (intro exI [of _ 0]) simp
  next
    case False
    then have "find p ys = Some x" using Cons.prems by simp
    then obtain i where i: "i < length ys" "ys ! i = x" "p x" "\<forall>j < i. \<not> p (ys ! j)"
      "update_first p f ys = ys[i := f x]"
      using Cons.IH by blast
    have "\<forall>j < Suc i. \<not> p ((y # ys) ! j)"
      using False i(4) by (auto simp: less_Suc_eq_0_disj)
    then show ?thesis using False i by (intro exI [of _ "Suc i"]) simp
  qed
qed

lemma requireRole_ok:
  "\<not> falsy (userId sess) \<Longrightarrow> userRole sess = Some r \<Longrightarrow> requireRole r sess = None"
  by (simp add: requireRole_def)

subsection \<open>The statements \<open>APIService\<close> sends, as \<open>executeQuery\<close> reads them\<close>

text \<open>
  Each statement is lower-cased and trimmed, then sorted by its first word and by the
  fragments \<open>executeSelect\<close>, \<open>executeInsert\<close> and \<open>executeUpdate\<close> look for. The
  lemmas below carry every statement of \<open>APIService\<close> through that reading once.
\<close>

lemma lower_login:
  "trim (toLowerCase ''SELECT * FROM users WHERE email = ?'') = ''select * from users where email = ?''"
  by code_simp

lemma query_login:
  "executeQuery eng ''SELECT * FROM users WHERE email = ?'' params now new_id
   = (Inr (User_row (index_get (users_email eng) (param params 0))), eng)"
  unfolding executeQuery_def lower_login Let_def
  by (simp add: startsWith_def executeSelect_def)

lemma lower_by_creator:
  "trim (toLowerCase ''SELECT * FROM assignments WHERE created_by = ?'')
   = ''select * from assignments where created_by = ?''"
  by code_simp

lemma query_by_creator:
  "executeQuery eng ''SELECT * FROM assignments WHERE created_by = ?'' params now new_id
   = (Inr (Assignment_rows (case index_get (assignments_created_by eng) (param params 0) of
                               None \<Rightarrow> [] | Some rows \<Rightarrow> rows)), eng)"
  unfolding executeQuery_def lower_by_creator Let_def
  by (simp add: startsWith_def executeSelect_def)

lemma lower_all_assignments:
  "trim (toLowerCase ''SELECT * FROM assignments'') = ''select * from assignments''"
  by code_simp

lemma query_all_assignments:
  "executeQuery eng ''SELECT * FROM assignments'' params now new_id
   = (Inr (Assignment_rows (tables_assignments eng)), eng)"
  unfolding executeQuery_def lower_all_assignments Let_def
  by (simp add: startsWith_def executeSelect_def)

lemma lower_by_student:
  "trim (toLowerCase ''SELECT * FROM submissions WHERE student_id = ?'')
   = ''select * from submissions where student_id = ?''"
  by code_simp

lemma query_by_student:
  "executeQuery eng ''SELECT * FROM submissions WHERE student_id = ?'' params now new_id
   = (Inr (Submission_rows
        (case index_get (submissions_student_id eng) (param params 0) of
           None \<Rightarrow> [] | Some refs \<Rightarrow> rows_at (tables_submissions eng) refs)), eng)"
  unfolding executeQuery_def lower_by_student Let_def
  by (simp add: startsWith_def executeSelect_def)

lemma lower_all_submissions:
  "trim (toLowerCase ''SELECT * FROM submissions'') = ''select * from submissions''"
  by code_simp

lemma query_all_submissions:
  "executeQuery eng ''SELECT * FROM submissions'' params now new_id
   = (Inr (Submission_rows (tables_submissions eng)), eng)"
  unfolding executeQuery_def lower_all_submissions Let_def
  by (simp add: startsWith_def executeSelect_def)

lemma lower_update:
  "trim (toLowerCase ''UPDATE submissions SET repo_link = ? WHERE assignment_id = ? AND student_id = ?'')
   = ''update submissions set repo_link = ? where assignment_id = ? and student_id = ?''"
  by code_simp

lemma query_update:
  "executeQuery eng ''UPDATE submissions SET repo_link = ? WHERE assignment_id = ? AND student_id = ?''
     params now new_id
   = (case executeUpdate eng ''update submissions set repo_link = ? where assignment_id = ? and student_id = ?'' params now of
        (r, eng') \<Rightarrow> (Inr r, eng'))"
  unfolding executeQuery_def lower_update Let_def
  by (simp add: startsWith_def)

lemma update_dispatch:
  "includes_str ''update submissions set repo_link = ? where assignment_id = ? and student_id = ?'' ''submissions set''"
  by simp

lemma lower_insert:
  "trim (toLowerCase ''INSERT INTO submissions (assignment_id, student_id, repo_link) VALUES (?, ?, ?)'')
   = ''insert into submissions (assignment_id, student_id, repo_link) values (?, ?, ?)''"
  by code_simp

lemma insert_dispatch:
  "\<not> includes_str ''insert into submissions (assignment_id, student_id, repo_link) values (?, ?, ?)'' ''into assignments''"
  "includes_str ''insert into submissions (assignment_id, student_id, repo_link) values (?, ?, ?)'' ''into submissions''"
  by simp_all

lemma query_insert:
  "executeQuery eng ''INSERT INTO submissions (assignment_id, student_id, repo_link) VALUES (?, ?, ?)''
     [a, s, l] now new_id
   = (let submission = \<lparr>s_id = new_id, assignment_id = a, student_id = s, repo_link = l,
                          submitted_at = now, status = ''submitted''\<rparr>
      in (Inr (Submission_row submission),
          updateIndexes_submissions
            (eng\<lparr>tables_submissions := tables_submissions eng @ [submission]\<rparr>)
            (length (tables_submissions eng)) submission))"
  unfolding executeQuery_def lower_insert Let_def
  by (simp add: startsWith_def executeInsert_def insert_dispatch param_def text_of_def Let_def del: includes_str.simps)

lemma lower_insert_assignment:
  "trim (toLowerCase ''INSERT INTO assignments (title, description, deadline, instructions, created_by) VALUES (?, ?, ?, ?, ?)'')
   = ''insert into assignments (title, description, deadline, instructions, created_by) values (?, ?, ?, ?, ?)''"
  by code_simp

lemma insert_assignment_dispatch:
  "includes_str ''insert into assignments (title, description, deadline, instructions, created_by) values (?, ?, ?, ?, ?)'' ''into assignments''"
  by simp

lemma query_insert_assignment:
  "executeQuery eng ''INSERT INTO assignments (title, description, deadline, instructions, created_by) VALUES (?, ?, ?, ?, ?)''
     [t, d, dl, i, u] now new_id
   = (let assignment = \<lparr>a_id = new_id, title = t, description = Some d, deadline = dl,
                          instructions = Some i, created_by = u, a_created_at = now\<rparr>
      in (Inr (Assignment_row assignment),
          updateIndexes_assignments
            (eng\<lparr>tables_assignments := tables_assignments eng @ [assignment]\<rparr>) assignment))"
  unfolding executeQuery_def lower_insert_assignment Let_def
  by (simp add: startsWith_def executeInsert_def insert_assignment_dispatch param_def text_of_def
      Let_def del: includes_str.simps)

subsection \<open>The field checks of the server come first\<close>

text \<open>
  Once the role is right, a handler that takes required fields answers a missing one with
  the validation error, whatever else holds of the call, and changes nothing.
\<close>

lemma put_assignment_requires_fields:
  assumes "requireRole ''professor'' sess = None" "falsy title' \<or> falsy deadline'"
  shows "put_assignment db sess assignmentId title' description' deadline' instructions'
         = (Inl ValidationError, db)"
  using assms by (simp add: put_assignment_def)

lemma post_submission_requires_fields:
  assumes "requireRole ''student'' sess = None" "falsy assignmentId \<or> falsy repoLink"
  shows "post_submission cfg parse_date db sess assignmentId repoLink now new_id
         = (Inl ValidationError, db)"
  using assms by (simp add: post_submission_def)

lemma post_login_requires_fields:
  assumes "falsy email' \<or> falsy password'"
  shows "post_login bcrypt_compare db sess email' password' = (Inl ValidationError, sess)"
  using assms by (simp add: post_login_def)

subsection \<open>The concrete states\<close>

lemma sample_hash_is_hash: "hashPassword (js ''password123'') = Inr sample_hash"
  by code_simp

lemma constructor_state: "initializeDatabase = Inr (api_db initial_api)"
  by (simp add: initializeDatabase_def sample_hash_is_hash initial_api_def)

lemma stud1_api_eq:
  "stud1_api = initial_api\<lparr>currentSession := Some \<lparr>bs_userId = ''stud1'',
       bs_user = \<lparr>u_id = ''stud1'', email = ''john.doe@university.edu'', password_hash = sample_hash,
          name = ''John Doe'', role = ''student'', u_created_at = 20250120103000\<rparr>,
       bs_createdAt = 20260101090000\<rparr>\<rparr>"
  by (simp add: stud1_api_def login_def query_login initial_api_def createIndexes_def
       initial_tables_def index_get_def param_def verifyPassword_def sample_hash_is_hash Let_def)

subsection \<open>The indexes of the browser engine\<close>

text \<open>
  The constructor establishes the agreement of the indexes with the tables. The two
  listings change nothing, and login and the two calls that write keep the agreement.
\<close>

lemma indexed_createIndexes: "indexed (createIndexes eng)"
  by (simp add: indexed_def createIndexes_def)

lemma indexed_reads:
  "getAssignments api now = (r, api') \<Longrightarrow> api' = api"
  "getSubmissions api now = (r', api'') \<Longrightarrow> api'' = api"
  by (auto simp: getAssignments_def getSubmissions_def query_by_creator query_all_assignments
      query_by_student query_all_submissions split: if_splits option.splits)

lemma indexed_login:
  assumes "indexed (api_db api)"
    and "login api e p now = (r, api')"
  shows "indexed (api_db api')"
  using assms
  by (auto simp: login_def query_login Let_def
      split: if_splits option.splits sum.splits)

lemma indexed_createAssignment:
  assumes "indexed (api_db api)"
    and "createAssignment api t d dl i now new_id = (r, api')"
  shows "indexed (api_db api')"
  using assms
  by (auto simp: createAssignment_def query_insert_assignment updateIndexes_assignments_def
      indexed_def Let_def split: if_splits)

lemma indexed_createSubmission:
  assumes "indexed (api_db api)"
    and "createSubmission api a l now new_id = (r, api')"
  shows "indexed (api_db api')"
  using assms
  by (auto simp: createSubmission_def query_insert query_update executeUpdate_def
      updateIndexes_submissions_def indexed_def Let_def
      split: if_splits option.splits prod.splits simp del: includes_str.simps)

subsection \<open>One call of create-or-update-submission\<close>

lemma post_submission_accepted:
  assumes "post_submission cfg parse_date db sess (Some a) (Some l) now new_id = (Inr ok, db')"
    and "userId sess = Some s"
  shows "upsert_submission cfg db new_id a s l now = Some db'"
  using assms
  by (auto simp: post_submission_def split: option.splits if_splits)

lemma post_submission_failure_keeps:
  "fst (post_submission cfg parse_date db sess assignmentId repoLink now new_id) = Inl e
   \<Longrightarrow> snd (post_submission cfg parse_date db sess assignmentId repoLink now new_id) = db"
  by (auto simp: post_submission_def split: option.splits if_splits)

lemma upsert_existing:
  assumes "upsert_submission cfg db new_id a s l now = Some db'"
    and "\<exists>r \<in> set (submissions db). assignment_id r = a \<and> student_id r = s"
  shows "submissions db'
         = map (\<lambda>r. if assignment_id r = a \<and> student_id r = s
                     then r\<lparr>repo_link := l, submitted_at := now\<rparr> else r) (submissions db)"
    and "users db' = users db" and "assignments db' = assignments db"
  using assms by (auto simp: upsert_submission_def Let_def split: if_splits)

lemma upsert_new:
  assumes "upsert_submission cfg db new_id a s l now = Some db'"
    and "\<not> (\<exists>r \<in> set (submissions db). assignment_id r = a \<and> student_id r = s)"
  shows "submissions db'
         = submissions db @ [\<lparr>s_id = new_id, assignment_id = a, student_id = s, repo_link = l,
                               submitted_at = now, status = ''submitted''\<rparr>]"
    and "users db' = users db" and "assignments db' = assignments db"
  using assms by (auto simp: upsert_submission_def Let_def split: if_splits)

lemma createSubmission_existing:
  assumes "createSubmission api a l now new_id = (Inr res, api')"
    and "currentSession api = Some sess"
    and "find (\<lambda>r. assignment_id r = a \<and> student_id r = bs_userId sess)
           (tables_submissions (api_db api)) = Some x"
  shows "res = Submission_row (x\<lparr>repo_link := l, submitted_at := now\<rparr>)"
    and "api' = api\<lparr>api_db := (api_db api)\<lparr>tables_submissions :=
               update_first (\<lambda>r. assignment_id r = a \<and> student_id r = bs_userId sess)
                 (\<lambda>r. r\<lparr>repo_link := l, submitted_at := now\<rparr>)
                 (tables_submissions (api_db api))\<rparr>\<rparr>"
  using assms
  by (auto simp: createSubmission_def query_update executeUpdate_def update_dispatch
      param_def text_of_def Let_def simp del: includes_str.simps split: if_splits)

lemma createSubmission_new:
  assumes "createSubmission api a l now new_id = (Inr res, api')"
    and "currentSession api = Some sess"
    and "find (\<lambda>r. assignment_id r = a \<and> student_id r = bs_userId sess)
           (tables_submissions (api_db api)) = None"
  shows "res = Submission_row \<lparr>s_id = new_id, assignment_id = a, student_id = bs_userId sess,
                 repo_link = l, submitted_at = now, status = ''submitted''\<rparr>"
    and "tables_submissions (api_db api')
         = tables_submissions (api_db api) @
             [\<lparr>s_id = new_id, assignment_id = a, student_id = bs_userId sess,
               repo_link = l, submitted_at = now, status = ''submitted''\<rparr>]"
    and "tables_users (api_db api') = tables_users (api_db api)"
    and "tables_assignments (api_db api') = tables_assignments (api_db api)"
    and "currentSession api' = currentSession api"
  using assms
  by (auto simp: createSubmission_def query_insert updateIndexes_submissions_def Let_def
      split: if_splits)

lemma createSubmission_failure_keeps:
  "createSubmission api a l now new_id = (Inl e, api') \<Longrightarrow> api' = api"
  by (auto simp: createSubmission_def query_update query_insert Let_def
      split: if_splits option.splits prod.splits)

lemma createSubmission_session:
  "createSubmission api a l now new_id = (r, api') \<Longrightarrow> currentSession api' = currentSession api"
  by (auto simp: createSubmission_def query_update query_insert Let_def
      split: if_splits option.splits prod.splits sum.splits)

text \<open>
  Every guard of the server's handler passed, the call is accepted: the caller is a
  logged-in student, both fields are given, the assignment exists and its deadline is not
  behind now, and the statement meets the constraints of the table (a row for the pair is
  there, which turns the insertion into the update; or the fresh id is not the id of a row,
  and the student is a user if the connection enforces foreign keys).
\<close>

lemma post_submission_accepts:
  assumes "userId sess = Some s" "s \<noteq> []" "userRole sess = Some ''student''"
    and "a \<noteq> []" "l \<noteq> []"
    and "find (\<lambda>x. a_id x = a) (assignments db) = Some asg"
    and "\<not> date_gt now (parse_date (deadline asg))"
    and "(\<exists>r \<in> set (submissions db). assignment_id r = a \<and> student_id r = s)
         \<or> (new_id \<notin> s_id ` set (submissions db)
             \<and> (s \<in> u_id ` set (users db) \<or> \<not> foreign_keys cfg))"
  shows "fst (post_submission cfg parse_date db sess (Some a) (Some l) now new_id) = Inr ()"
proof -
  have "a_id asg = a"
    using assms(6) find_first_hit [of "\<lambda>x. a_id x = a" "assignments db" asg] by simp
  moreover have "asg \<in> set (assignments db)"
    using assms(6) find_first_hit [of "\<lambda>x. a_id x = a" "assignments db" asg] by simp
  ultimately have "a \<in> a_id ` set (assignments db)"
    by force
  then have "\<exists>db'. upsert_submission cfg db new_id a s l now = Some db'"
    using assms(8) by (auto simp: upsert_submission_def Let_def)
  then show ?thesis
    using assms(1-7) by (auto simp: post_submission_def requireRole_def falsy_def)
qed

text \<open>In the browser layer every call of a logged-in student is accepted.\<close>

lemma createSubmission_accepts:
  assumes "currentSession api = Some bsess" "role (bs_user bsess) = ''student''"
  shows "\<exists>res. fst (createSubmission api a l now new_id) = Inr res"
  using assms
  by (auto simp: createSubmission_def is_student_def query_update query_insert Let_def
      split: option.splits prod.splits)

text \<open>
  Claim C8. A call of student \<open>s\<close> for assignment \<open>a\<close>, on the server and in the browser
  layer. The call is accepted when every guard of the handler passes (on the server: a
  student's session, both fields given, an assignment whose deadline is not behind now, and
  for a first submission a fresh id and, where foreign keys are enforced, a stored user; in
  the browser layer: a student's session). When the call is accepted and a row for
  \<open>(a, s)\<close> exists, the table keeps its length and its other rows, and that row is the old
  row with \<open>repo_link\<close> set to the new link and \<open>submitted_at\<close> to now: its id, its status
  and its two references are unchanged. When the call is accepted and no row exists, the
  table gains one row at its end, with the new id, the link, now, and status \<open>submitted\<close>.
\<close>

theorem C8_resubmission_overwrites:
  assumes caller: "userId sess = Some s" "currentSession api = Some bsess"
  shows "(s \<noteq> [] \<and> userRole sess = Some ''student'' \<and> a \<noteq> [] \<and> l \<noteq> []
          \<and> find (\<lambda>x. a_id x = a) (assignments db) = Some asg
          \<and> \<not> date_gt now (parse_date (deadline asg))
          \<and> ((\<exists>r \<in> set (submissions db). assignment_id r = a \<and> student_id r = s)
              \<or> (new_id \<notin> s_id ` set (submissions db)
                  \<and> (s \<in> u_id ` set (users db) \<or> \<not> foreign_keys cfg)))
          \<longrightarrow> fst (post_submission cfg parse_date db sess (Some a) (Some l) now new_id) = Inr ())
       \<and> (fst (post_submission cfg parse_date db sess (Some a) (Some l) now new_id) = Inr ()
          \<longrightarrow>
            ((\<exists>r \<in> set (submissions db). assignment_id r = a \<and> student_id r = s) \<longrightarrow>
               length (submissions
                  (snd (post_submission cfg parse_date db sess (Some a) (Some l) now new_id)))
                 = length (submissions db)
             \<and> (\<forall>i < length (submissions db).
                   if assignment_id (submissions db ! i) = a \<and> student_id (submissions db ! i) = s
                   then submissions
                          (snd (post_submission cfg parse_date db sess (Some a) (Some l) now new_id)) ! i
                        = (submissions db ! i)\<lparr>repo_link := l, submitted_at := now\<rparr>
                   else submissions
                          (snd (post_submission cfg parse_date db sess (Some a) (Some l) now new_id)) ! i
                        = submissions db ! i))
          \<and> (\<not> (\<exists>r \<in> set (submissions db). assignment_id r = a \<and> student_id r = s) \<longrightarrow>
               submissions
                 (snd (post_submission cfg parse_date db sess (Some a) (Some l) now new_id))
               = submissions db @
                   [\<lparr>s_id = new_id, assignment_id = a, student_id = s, repo_link = l,
                     submitted_at = now, status = ''submitted''\<rparr>]))
       \<and> (role (bs_user bsess) = ''student''
          \<longrightarrow> (\<exists>res. fst (createSubmission api a' l' now' new_id') = Inr res))
       \<and> (\<forall>res. fst (createSubmission api a' l' now' new_id') = Inr res
          \<longrightarrow>
            ((\<exists>r \<in> set (tables_submissions (api_db api)).
                 assignment_id r = a' \<and> student_id r = bs_userId bsess) \<longrightarrow>
               (\<exists>i < length (tables_submissions (api_db api)).
                  assignment_id (tables_submissions (api_db api) ! i) = a'
                \<and> student_id (tables_submissions (api_db api) ! i) = bs_userId bsess
                \<and> tables_submissions (api_db (snd (createSubmission api a' l' now' new_id')))
                    = (tables_submissions (api_db api))
                        [i := (tables_submissions (api_db api) ! i)
                                \<lparr>repo_link := l', submitted_at := now'\<rparr>]
                \<and> res = Submission_row ((tables_submissions (api_db api) ! i)
                                \<lparr>repo_link := l', submitted_at := now'\<rparr>)))
          \<and> (\<not> (\<exists>r \<in> set (tables_submissions (api_db api)).
                 assignment_id r = a' \<and> student_id r = bs_userId bsess) \<longrightarrow>
               tables_submissions (api_db (snd (createSubmission api a' l' now' new_id')))
               = tables_submissions (api_db api) @
                   [\<lparr>s_id = new_id', assignment_id = a', student_id = bs_userId bsess,
                     repo_link = l', submitted_at = now', status = ''submitted''\<rparr>]
             \<and> res = Submission_row
                   \<lparr>s_id = new_id', assignment_id = a', student_id = bs_userId bsess,
                     repo_link = l', submitted_at = now', status = ''submitted''\<rparr>))"
proof -
  let ?key = "\<lambda>r. assignment_id r = a \<and> student_id r = s"
  let ?bkey = "\<lambda>r. assignment_id r = a' \<and> student_id r = bs_userId bsess"
  let ?subs = "tables_submissions (api_db api)"
  let ?post = "post_submission cfg parse_date db sess (Some a) (Some l) now new_id"
  let ?create = "createSubmission api a' l' now' new_id'"
  have s_accepts: "fst ?post = Inr ()"
    if "s \<noteq> [] \<and> userRole sess = Some ''student'' \<and> a \<noteq> [] \<and> l \<noteq> []
          \<and> find (\<lambda>x. a_id x = a) (assignments db) = Some asg
          \<and> \<not> date_gt now (parse_date (deadline asg))
          \<and> ((\<exists>r \<in> set (submissions db). ?key r)
              \<or> (new_id \<notin> s_id ` set (submissions db)
                  \<and> (s \<in> u_id ` set (users db) \<or> \<not> foreign_keys cfg)))"
    using that caller(1) post_submission_accepts [of sess s a l db asg now parse_date new_id cfg]
    by blast
  have s_effect:
    "((\<exists>r \<in> set (submissions db). ?key r) \<longrightarrow>
               length (submissions (snd ?post)) = length (submissions db)
             \<and> (\<forall>i < length (submissions db).
                   if ?key (submissions db ! i)
                   then submissions (snd ?post) ! i
                        = (submissions db ! i)\<lparr>repo_link := l, submitted_at := now\<rparr>
                   else submissions (snd ?post) ! i = submissions db ! i))
          \<and> (\<not> (\<exists>r \<in> set (submissions db). ?key r) \<longrightarrow>
               submissions (snd ?post)
               = submissions db @
                   [\<lparr>s_id = new_id, assignment_id = a, student_id = s, repo_link = l,
                     submitted_at = now, status = ''submitted''\<rparr>])"
    if accepted: "fst ?post = Inr ()"
  proof -
    have "?post = (Inr (), snd ?post)"
      using accepted by (metis prod.collapse)
    then have up: "upsert_submission cfg db new_id a s l now = Some (snd ?post)"
      using caller(1) by (rule post_submission_accepted)
    have old: "length (submissions (snd ?post)) = length (submissions db)
             \<and> (\<forall>i < length (submissions db).
                   if ?key (submissions db ! i)
                   then submissions (snd ?post) ! i
                        = (submissions db ! i)\<lparr>repo_link := l, submitted_at := now\<rparr>
                   else submissions (snd ?post) ! i = submissions db ! i)"
      if "\<exists>r \<in> set (submissions db). ?key r"
      using upsert_existing(1) [OF up that] by simp
    have new: "submissions (snd ?post) = submissions db @
              [\<lparr>s_id = new_id, assignment_id = a, student_id = s, repo_link = l,
                submitted_at = now, status = ''submitted''\<rparr>]"
      if "\<not> (\<exists>r \<in> set (submissions db). ?key r)"
      using upsert_new(1) [OF up that] .
    show ?thesis
      using old new by blast
  qed
  have b_accepts: "\<exists>res. fst ?create = Inr res" if "role (bs_user bsess) = ''student''"
    using caller(2) that by (rule createSubmission_accepts)
  have b_effect:
    "((\<exists>r \<in> set ?subs. ?bkey r) \<longrightarrow>
               (\<exists>i < length ?subs. ?bkey (?subs ! i)
                \<and> tables_submissions (api_db (snd ?create))
                    = ?subs[i := (?subs ! i)\<lparr>repo_link := l', submitted_at := now'\<rparr>]
                \<and> res = Submission_row ((?subs ! i)\<lparr>repo_link := l', submitted_at := now'\<rparr>)))
          \<and> (\<not> (\<exists>r \<in> set ?subs. ?bkey r) \<longrightarrow>
               tables_submissions (api_db (snd ?create))
               = ?subs @
                   [\<lparr>s_id = new_id', assignment_id = a', student_id = bs_userId bsess,
                     repo_link = l', submitted_at = now', status = ''submitted''\<rparr>]
             \<and> res = Submission_row
                   \<lparr>s_id = new_id', assignment_id = a', student_id = bs_userId bsess,
                     repo_link = l', submitted_at = now', status = ''submitted''\<rparr>)"
    if accepted: "fst ?create = Inr res" for res
  proof -
    have browser: "?create = (Inr res, snd ?create)"
      using accepted by (metis prod.collapse)
    have old: "\<exists>i < length ?subs. ?bkey (?subs ! i)
             \<and> tables_submissions (api_db (snd ?create))
                 = ?subs[i := (?subs ! i)\<lparr>repo_link := l', submitted_at := now'\<rparr>]
             \<and> res = Submission_row ((?subs ! i)\<lparr>repo_link := l', submitted_at := now'\<rparr>)"
      if ex: "\<exists>r \<in> set ?subs. ?bkey r"
    proof -
      obtain x where x: "find ?bkey ?subs = Some x"
        using ex find_some_ex [of ?bkey ?subs] by blast
      obtain i where i: "i < length ?subs" "?subs ! i = x" "?bkey x"
        "update_first ?bkey (\<lambda>r. r\<lparr>repo_link := l', submitted_at := now'\<rparr>) ?subs
         = ?subs[i := x\<lparr>repo_link := l', submitted_at := now'\<rparr>]"
        using update_first_at [OF x] by blast
      have "res = Submission_row (x\<lparr>repo_link := l', submitted_at := now'\<rparr>)"
        using createSubmission_existing(1) [OF browser caller(2) x] .
      moreover have "tables_submissions (api_db (snd ?create))
         = ?subs[i := x\<lparr>repo_link := l', submitted_at := now'\<rparr>]"
        using createSubmission_existing(2) [OF browser caller(2) x] i(4) by simp
      ultimately show ?thesis using i(1,2,3) by blast
    qed
    have new: "tables_submissions (api_db (snd ?create)) = ?subs @
                [\<lparr>s_id = new_id', assignment_id = a', student_id = bs_userId bsess,
                  repo_link = l', submitted_at = now', status = ''submitted''\<rparr>]
             \<and> res = Submission_row
                   \<lparr>s_id = new_id', assignment_id = a', student_id = bs_userId bsess,
                     repo_link = l', submitted_at = now', status = ''submitted''\<rparr>"
      if nex: "\<not> (\<exists>r \<in> set ?subs. ?bkey r)"
    proof -
      have none: "find ?bkey ?subs = None"
        using nex by (simp add: find_none_iff)
      show ?thesis
        using createSubmission_new(1) [OF browser caller(2) none]
          createSubmission_new(2) [OF browser caller(2) none] by simp
    qed
    show ?thesis
      using old new by blast
  qed
  show ?thesis
    using s_accepts s_effect b_accepts b_effect by (intro conjI impI allI) blast+
qed

text \<open>
  Student \<open>stud1\<close> on the sample data, two weeks before the first deadline: the call for
  \<open>assign1\<close>, where their row \<open>sub1\<close> exists, overwrites the link and the time of that
  row and nothing else; the call for \<open>assign2\<close>, where they have no row, is accepted and
  appends a row with status \<open>submitted\<close>. Both on the server and in the browser layer.
\<close>

theorem C8_resubmission_overwrites_witness:
  "userId stud1_session = Some ''stud1'' \<and> userRole stud1_session = Some ''student''
   \<and> map_option (\<lambda>b. (bs_userId b, role (bs_user b))) (currentSession stud1_api)
       = Some (''stud1'', ''student'')
   \<and> map (\<lambda>a. (a_id a, sample_parse_date (deadline a))) (assignments (sample_data ''h'' 0))
       = [(''assign1'', Some 20250915235959), (''assign2'', Some 20250920235959)]
   \<and> submissions (sample_data ''h'' 0)
       = [\<lparr>s_id = ''sub1'', assignment_id = ''assign1'', student_id = ''stud1'',
            repo_link = ''https://github.com/johndoe/web-dev-project'', submitted_at = 0,
            status = ''submitted''\<rparr>]
   \<and> tables_submissions (api_db stud1_api)
       = [\<lparr>s_id = ''sub1'', assignment_id = ''assign1'', student_id = ''stud1'',
            repo_link = ''https://github.com/johndoe/web-dev-project'',
            submitted_at = 20250825163000, status = ''submitted''\<rparr>]
   \<and> fst (post_submission \<lparr>foreign_keys = False, on_delete = NoAction\<rparr> sample_parse_date
          (sample_data ''h'' 0) stud1_session (Some ''assign1'')
          (Some ''https://github.com/johndoe/v2'') 20250901120000 ''uuid-3'') = Inr ()
   \<and> length (submissions (snd (post_submission \<lparr>foreign_keys = False, on_delete = NoAction\<rparr>
          sample_parse_date (sample_data ''h'' 0) stud1_session (Some ''assign1'')
          (Some ''https://github.com/johndoe/v2'') 20250901120000 ''uuid-3''))) = 1
   \<and> submissions (snd (post_submission \<lparr>foreign_keys = False, on_delete = NoAction\<rparr>
          sample_parse_date (sample_data ''h'' 0) stud1_session (Some ''assign1'')
          (Some ''https://github.com/johndoe/v2'') 20250901120000 ''uuid-3'')) ! 0
      = \<lparr>s_id = ''sub1'', assignment_id = ''assign1'', student_id = ''stud1'',
          repo_link = ''https://github.com/johndoe/v2'', submitted_at = 20250901120000,
          status = ''submitted''\<rparr>
   \<and> fst (post_submission \<lparr>foreign_keys = False, on_delete = NoAction\<rparr> sample_parse_date
          (sample_data ''h'' 0) stud1_session (Some ''assign2'')
          (Some ''https://github.com/johndoe/db'') 20250901120000 ''uuid-4'') = Inr ()
   \<and> submissions (snd (post_submission \<lparr>foreign_keys = False, on_delete = NoAction\<rparr>
          sample_parse_date (sample_data ''h'' 0) stud1_session (Some ''assign2'')
          (Some ''https://github.com/johndoe/db'') 20250901120000 ''uuid-4''))
      = [\<lparr>s_id = ''sub1'', assignment_id = ''assign1'', student_id = ''stud1'',
           repo_link = ''https://github.com/johndoe/web-dev-project'', submitted_at = 0,
           status = ''submitted''\<rparr>,
         \<lparr>s_id = ''uuid-4'', assignment_id = ''assign2'', student_id = ''stud1'',
           repo_link = ''https://github.com/johndoe/db'', submitted_at = 20250901120000,
           status = ''submitted''\<rparr>]
   \<and> fst (createSubmission stud1_api ''assign1'' ''https://github.com/johndoe/v2''
            20250901120000 ''id_9'')
      = Inr (Submission_row
          \<lparr>s_id = ''sub1'', assignment_id = ''assign1'', student_id = ''stud1'',
            repo_link = ''https://github.com/johndoe/v2'', submitted_at = 20250901120000,
            status = ''submitted''\<rparr>)
   \<and> tables_submissions (api_db (snd (createSubmission stud1_api ''assign1''
            ''https://github.com/johndoe/v2'' 20250901120000 ''id_9'')))
      = [\<lparr>s_id = ''sub1'', assignment_id = ''assign1'', student_id = ''stud1'',
           repo_link = ''https://github.com/johndoe/v2'', submitted_at = 20250901120000,
           status = ''submitted''\<rparr>]
   \<and> fst (createSubmission stud1_api ''assign2'' ''https://github.com/johndoe/db''
            20250901120000 ''id_10'')
      = Inr (Submission_row
          \<lparr>s_id = ''id_10'', assignment_id = ''assign2'', student_id = ''stud1'',
            repo_link = ''https://github.com/johndoe/db'', submitted_at = 20250901120000,
            status = ''submitted''\<rparr>)
   \<and> tables_submissions (api_db (snd (createSubmission stud1_api ''assign2''
            ''https://github.com/johndoe/db'' 20250901120000 ''id_10'')))
      = [\<lparr>s_id = ''sub1'', assignment_id = ''assign1'', student_id = ''stud1'',
           repo_link = ''https://github.com/johndoe/web-dev-project'',
           submitted_at = 20250825163000, status = ''submitted''\<rparr>,
         \<lparr>s_id = ''id_10'', assignment_id = ''assign2'', student_id = ''stud1'',
           repo_link = ''https://github.com/johndoe/db'', submitted_at = 20250901120000,
           status = ''submitted''\<rparr>]"
proof -
  let ?cfg = "\<lparr>foreign_keys = False, on_delete = NoAction\<rparr>"
  let ?db = "sample_data ''h'' 0"
  let ?bsess = "\<lparr>bs_userId = ''stud1'',
       bs_user = \<lparr>u_id = ''stud1'', email = ''john.doe@university.edu'', password_hash = sample_hash,
          name = ''John Doe'', role = ''student'', u_created_at = 20250120103000\<rparr>,
       bs_createdAt = 20260101090000\<rparr>"
  let ?post1 = "post_submission ?cfg sample_parse_date ?db stud1_session (Some ''assign1'')
          (Some ''https://github.com/johndoe/v2'') 20250901120000 ''uuid-3''"
  let ?post2 = "post_submission ?cfg sample_parse_date ?db stud1_session (Some ''assign2'')
          (Some ''https://github.com/johndoe/db'') 20250901120000 ''uuid-4''"
  let ?create1 = "createSubmission stud1_api ''assign1'' ''https://github.com/johndoe/v2''
            20250901120000 ''id_9''"
  let ?create2 = "createSubmission stud1_api ''assign2'' ''https://github.com/johndoe/db''
            20250901120000 ''id_10''"
  have caller: "userId stud1_session = Some ''stud1''" "currentSession stud1_api = Some ?bsess"
    by (simp_all add: stud1_session_def stud1_api_eq)
  have student: "''stud1'' \<noteq> []" "userRole stud1_session = Some ''student''"
    "role (bs_user ?bsess) = ''student''" "bs_userId ?bsess = ''stud1''"
    by (simp_all add: stud1_session_def)
  have deadlines:
    "map (\<lambda>a. (a_id a, sample_parse_date (deadline a))) (assignments ?db)
       = [(''assign1'', Some 20250915235959), (''assign2'', Some 20250920235959)]"
    by (simp add: sample_data_def sample_parse_date_def)
  have found:
    "find (\<lambda>x. a_id x = ''assign1'') (assignments ?db) = Some (assignments ?db ! 0)"
    "find (\<lambda>x. a_id x = ''assign2'') (assignments ?db) = Some (assignments ?db ! 1)"
    "\<not> date_gt 20250901120000 (sample_parse_date (deadline (assignments ?db ! 0)))"
    "\<not> date_gt 20250901120000 (sample_parse_date (deadline (assignments ?db ! 1)))"
    by (simp_all add: sample_data_def sample_parse_date_def date_gt_def)
  have rows: "submissions ?db
      = [\<lparr>s_id = ''sub1'', assignment_id = ''assign1'', student_id = ''stud1'',
          repo_link = ''https://github.com/johndoe/web-dev-project'', submitted_at = 0,
          status = ''submitted''\<rparr>]"
    by (simp add: sample_data_def)
  have brows: "tables_submissions (api_db stud1_api)
       = [\<lparr>s_id = ''sub1'', assignment_id = ''assign1'', student_id = ''stud1'',
            repo_link = ''https://github.com/johndoe/web-dev-project'',
            submitted_at = 20250825163000, status = ''submitted''\<rparr>]"
    by (simp add: stud1_api_eq initial_api_def createIndexes_def initial_tables_def)
  note update = C8_resubmission_overwrites [OF caller,
      where parse_date = sample_parse_date and cfg = ?cfg and db = ?db
        and a = "''assign1''" and l = "''https://github.com/johndoe/v2''"
        and now = 20250901120000 and new_id = "''uuid-3''" and asg = "assignments ?db ! 0"
        and a' = "''assign1''" and l' = "''https://github.com/johndoe/v2''"
        and now' = 20250901120000 and new_id' = "''id_9''"]
  note insert = C8_resubmission_overwrites [OF caller,
      where parse_date = sample_parse_date and cfg = ?cfg and db = ?db
        and a = "''assign2''" and l = "''https://github.com/johndoe/db''"
        and now = 20250901120000 and new_id = "''uuid-4''" and asg = "assignments ?db ! 1"
        and a' = "''assign2''" and l' = "''https://github.com/johndoe/db''"
        and now' = 20250901120000 and new_id' = "''id_10''"]
  note update_server = update [THEN conjunct1] update [THEN conjunct2, THEN conjunct1]
  note update_browser = update [THEN conjunct2, THEN conjunct2, THEN conjunct1]
    update [THEN conjunct2, THEN conjunct2, THEN conjunct2, THEN spec, THEN mp]
  note insert_server = insert [THEN conjunct1] insert [THEN conjunct2, THEN conjunct1]
  note insert_browser = insert [THEN conjunct2, THEN conjunct2, THEN conjunct1]
    insert [THEN conjunct2, THEN conjunct2, THEN conjunct2, THEN spec, THEN mp]
  have s1: "fst ?post1 = Inr ()"
    using update_server(1) student(1,2) found(1,3) by (simp add: rows)
  have s1_rows: "length (submissions (snd ?post1)) = 1
     \<and> submissions (snd ?post1) ! 0
      = \<lparr>s_id = ''sub1'', assignment_id = ''assign1'', student_id = ''stud1'',
          repo_link = ''https://github.com/johndoe/v2'', submitted_at = 20250901120000,
          status = ''submitted''\<rparr>"
    using update_server(2) s1 by (simp add: rows)
  have s2: "fst ?post2 = Inr ()"
    using insert_server(1) student(1,2) found(2,4) by (simp add: rows)
  have s2_rows: "submissions (snd ?post2)
      = [\<lparr>s_id = ''sub1'', assignment_id = ''assign1'', student_id = ''stud1'',
           repo_link = ''https://github.com/johndoe/web-dev-project'', submitted_at = 0,
           status = ''submitted''\<rparr>,
         \<lparr>s_id = ''uuid-4'', assignment_id = ''assign2'', student_id = ''stud1'',
           repo_link = ''https://github.com/johndoe/db'', submitted_at = 20250901120000,
           status = ''submitted''\<rparr>]"
    using insert_server(2) s2 by (simp add: rows)
  obtain res1 where b1: "fst ?create1 = Inr res1"
    using update_browser(1) student(3) by blast
  have b1_rows: "res1 = Submission_row
          \<lparr>s_id = ''sub1'', assignment_id = ''assign1'', student_id = ''stud1'',
            repo_link = ''https://github.com/johndoe/v2'', submitted_at = 20250901120000,
            status = ''submitted''\<rparr>
     \<and> tables_submissions (api_db (snd ?create1))
      = [\<lparr>s_id = ''sub1'', assignment_id = ''assign1'', student_id = ''stud1'',
           repo_link = ''https://github.com/johndoe/v2'', submitted_at = 20250901120000,
           status = ''submitted''\<rparr>]"
    using update_browser(2) [OF b1] by (simp add: brows)
  obtain res2 where b2: "fst ?create2 = Inr res2"
    using insert_browser(1) student(3) by blast
  have b2_rows: "res2 = Submission_row
          \<lparr>s_id = ''id_10'', assignment_id = ''assign2'', student_id = ''stud1'',
            repo_link = ''https://github.com/johndoe/db'', submitted_at = 20250901120000,
            status = ''submitted''\<rparr>
     \<and> tables_submissions (api_db (snd ?create2))
      = [\<lparr>s_id = ''sub1'', assignment_id = ''assign1'', student_id = ''stud1'',
           repo_link = ''https://github.com/johndoe/web-dev-project'',
           submitted_at = 20250825163000, status = ''submitted''\<rparr>,
         \<lparr>s_id = ''id_10'', assignment_id = ''assign2'', student_id = ''stud1'',
           repo_link = ''https://github.com/johndoe/db'', submitted_at = 20250901120000,
           status = ''submitted''\<rparr>]"
    using insert_browser(2) [OF b2] by (simp add: brows)
  have session: "map_option (\<lambda>b. (bs_userId b, role (bs_user b))) (currentSession stud1_api)
       = Some (''stud1'', ''student'')"
    by (simp add: stud1_api_eq)
  show ?thesis
    using caller(1) student(2) session deadlines rows brows s1 s1_rows s2 s2_rows
      b1 b1_rows b2 b2_rows
    by simp
qed

subsection \<open>Sequences of calls: one row for an assignment and a student\<close>

lemma rows_for_update_all:
  "rows_for a s (map (\<lambda>r. if assignment_id r = a \<and> student_id r = s
                            then r\<lparr>repo_link := l, submitted_at := now\<rparr> else r) table)
   = map (\<lambda>r. r\<lparr>repo_link := l, submitted_at := now\<rparr>) (rows_for a s table)"
  by (induction table) (auto simp: rows_for_def)

lemma rows_for_update_first:
  "rows_for a s (update_first (\<lambda>r. assignment_id r = a \<and> student_id r = s)
                   (\<lambda>r. r\<lparr>repo_link := l, submitted_at := now\<rparr>) table)
   = (case rows_for a s table of
        [] \<Rightarrow> []
      | r # rs \<Rightarrow> r\<lparr>repo_link := l, submitted_at := now\<rparr> # rs)"
  by (induction table) (auto simp: rows_for_def)

lemma rows_for_empty_iff:
  "rows_for a s table = [] \<longleftrightarrow> \<not> (\<exists>r \<in> set table. assignment_id r = a \<and> student_id r = s)"
  by (auto simp: rows_for_def filter_empty_conv)

lemma server_step:
  assumes accepted: "post_submission cfg parse_date db sess (Some a) (Some l) now new_id
                     = (Inr ok, db')"
    and caller: "userId sess = Some s"
    and inv: "length (rows_for a s (submissions db)) \<le> 1"
  shows "\<exists>r. rows_for a s (submissions db') = [r] \<and> repo_link r = l"
proof -
  have up: "upsert_submission cfg db new_id a s l now = Some db'"
    using accepted caller by (rule post_submission_accepted)
  show ?thesis
  proof (cases "\<exists>r \<in> set (submissions db). assignment_id r = a \<and> student_id r = s")
    case True
    then have "rows_for a s (submissions db) \<noteq> []"
      by (simp add: rows_for_empty_iff)
    then obtain x where x: "rows_for a s (submissions db) = [x]"
      using single_or_none [OF inv] by blast
    have "rows_for a s (submissions db') = [x\<lparr>repo_link := l, submitted_at := now\<rparr>]"
      using upsert_existing(1) [OF up True] x by (simp add: rows_for_update_all)
    then show ?thesis by simp
  next
    case False
    then have "rows_for a s (submissions db) = []"
      by (simp add: rows_for_empty_iff)
    then show ?thesis
      using upsert_new(1) [OF up False] by (simp add: rows_for_def)
  qed
qed

lemma server_run:
  assumes caller: "userId sess = Some s"
  shows "length (rows_for a s (submissions db)) \<le> 1
     \<Longrightarrow> post_submissions cfg parse_date sess a db calls = (links, db')
     \<Longrightarrow> (links = [] \<longrightarrow> db' = db)
       \<and> (links \<noteq> [] \<longrightarrow> (\<exists>r. rows_for a s (submissions db') = [r] \<and> repo_link r = last links))"
proof (induction calls arbitrary: db links db')
  case Nil
  then show ?case by simp
next
  case (Cons c cs)
  obtain reply db1 where call:
    "post_submission cfg parse_date db sess (Some a) (Some (call_link c)) (call_now c)
       (call_new_id c) = (reply, db1)"
    by (cases "post_submission cfg parse_date db sess (Some a) (Some (call_link c)) (call_now c)
       (call_new_id c)") blast
  show ?case
  proof (cases reply)
    case (Inl e)
    then have same: "db1 = db"
      using call post_submission_failure_keeps [of cfg parse_date db sess "Some a"
        "Some (call_link c)" "call_now c" "call_new_id c" e] by simp
    have "post_submissions cfg parse_date sess a db cs = (links, db')"
      using Cons.prems(2) call Inl same by simp
    then show ?thesis using Cons.IH [OF Cons.prems(1)] by blast
  next
    case (Inr ok)
    obtain rest where rest: "post_submissions cfg parse_date sess a db1 cs = (rest, db')"
      and links: "links = call_link c # rest"
      using Cons.prems(2) call Inr by (auto split: prod.splits)
    obtain r1 where r1: "rows_for a s (submissions db1) = [r1]" "repo_link r1 = call_link c"
      using server_step [OF call [unfolded Inr] caller Cons.prems(1)] by blast
    then have inv1: "length (rows_for a s (submissions db1)) \<le> 1"
      by simp
    have ih: "(rest = [] \<longrightarrow> db' = db1)
       \<and> (rest \<noteq> [] \<longrightarrow> (\<exists>r. rows_for a s (submissions db') = [r] \<and> repo_link r = last rest))"
      using Cons.IH [OF inv1 rest] .
    show ?thesis
    proof (cases "rest = []")
      case True
      then show ?thesis using ih r1 links by simp
    next
      case False
      then show ?thesis using ih links by simp
    qed
  qed
qed

lemma browser_step:
  assumes accepted: "createSubmission api a l now new_id = (Inr res, api')"
    and caller: "currentSession api = Some bsess"
    and inv: "length (rows_for a (bs_userId bsess) (tables_submissions (api_db api))) \<le> 1"
  shows "\<exists>r. rows_for a (bs_userId bsess) (tables_submissions (api_db api')) = [r]
              \<and> repo_link r = l"
proof (cases "find (\<lambda>r. assignment_id r = a \<and> student_id r = bs_userId bsess)
                (tables_submissions (api_db api))")
  case None
  then have "rows_for a (bs_userId bsess) (tables_submissions (api_db api)) = []"
    by (simp add: rows_for_empty_iff find_none_iff)
  then show ?thesis
    using createSubmission_new(2) [OF accepted caller None] by (simp add: rows_for_def)
next
  case (Some x)
  then have "rows_for a (bs_userId bsess) (tables_submissions (api_db api)) \<noteq> []"
    using find_first_hit [OF Some] by (auto simp: rows_for_empty_iff)
  then obtain y where y: "rows_for a (bs_userId bsess) (tables_submissions (api_db api)) = [y]"
    using single_or_none [OF inv] by blast
  have "tables_submissions (api_db api')
        = update_first (\<lambda>r. assignment_id r = a \<and> student_id r = bs_userId bsess)
            (\<lambda>r. r\<lparr>repo_link := l, submitted_at := now\<rparr>) (tables_submissions (api_db api))"
    using createSubmission_existing(2) [OF accepted caller Some] by simp
  then have "rows_for a (bs_userId bsess) (tables_submissions (api_db api'))
        = [y\<lparr>repo_link := l, submitted_at := now\<rparr>]"
    using y by (simp add: rows_for_update_first)
  then show ?thesis by simp
qed

lemma browser_run:
  "currentSession api = Some bsess
     \<Longrightarrow> length (rows_for a (bs_userId bsess) (tables_submissions (api_db api))) \<le> 1
     \<Longrightarrow> createSubmissions api a calls = (links, api')
     \<Longrightarrow> (links = [] \<longrightarrow> api' = api)
       \<and> (links \<noteq> [] \<longrightarrow> (\<exists>r. rows_for a (bs_userId bsess) (tables_submissions (api_db api')) = [r]
                                  \<and> repo_link r = last links))"
proof (induction calls arbitrary: api links api')
  case Nil
  then show ?case by simp
next
  case (Cons c cs)
  obtain reply api1 where call:
    "createSubmission api a (call_link c) (call_now c) (call_new_id c) = (reply, api1)"
    by (cases "createSubmission api a (call_link c) (call_now c) (call_new_id c)") blast
  have sess1: "currentSession api1 = Some bsess"
    using createSubmission_session [OF call] Cons.prems(1) by simp
  show ?case
  proof (cases reply)
    case (Inl e)
    then have same: "api1 = api"
      using call createSubmission_failure_keeps by blast
    have "createSubmissions api a cs = (links, api')"
      using Cons.prems(3) call Inl same by simp
    then show ?thesis using Cons.IH [OF Cons.prems(1,2)] by blast
  next
    case (Inr res)
    obtain rest where rest: "createSubmissions api1 a cs = (rest, api')"
      and links: "links = call_link c # rest"
      using Cons.prems(3) call Inr by (auto split: prod.splits)
    obtain r1 where r1: "rows_for a (bs_userId bsess) (tables_submissions (api_db api1)) = [r1]"
        "repo_link r1 = call_link c"
      using browser_step [OF call [unfolded Inr] Cons.prems(1,2)] by blast
    then have inv1: "length (rows_for a (bs_userId bsess) (tables_submissions (api_db api1))) \<le> 1"
      by simp
    have ih: "(rest = [] \<longrightarrow> api' = api1)
       \<and> (rest \<noteq> [] \<longrightarrow> (\<exists>r. rows_for a (bs_userId bsess) (tables_submissions (api_db api')) = [r]
                                \<and> repo_link r = last rest))"
      using Cons.IH [OF sess1 inv1 rest] .
    show ?thesis
    proof (cases "rest = []")
      case True
      then show ?thesis using ih r1 links by simp
    next
      case False
      then show ?thesis using ih links by simp
    qed
  qed
qed

text \<open>
  Claim C1, as amended. Student \<open>s\<close> calls create-or-update-submission for assignment
  \<open>a\<close> any number of times, starting from a state with no row for \<open>(a, s)\<close>. If at
  least one call was accepted, the final state has exactly one row for \<open>(a, s)\<close> and its
  \<open>repo_link\<close> is the link of the last accepted call; if none was, it has no such row.
  This holds on the server and in the browser layer.
\<close>

theorem C1_one_row_with_last_link:
  assumes server: "userId sess = Some s" "rows_for a s (submissions db) = []"
      "post_submissions cfg parse_date sess a db calls = (links, db')"
    and browser: "currentSession api = Some bsess"
      "rows_for a' (bs_userId bsess) (tables_submissions (api_db api)) = []"
      "createSubmissions api a' calls' = (links', api')"
  shows "(links \<noteq> [] \<longrightarrow> (\<exists>r. rows_for a s (submissions db') = [r] \<and> repo_link r = last links))
       \<and> (links = [] \<longrightarrow> rows_for a s (submissions db') = [])
       \<and> (links' \<noteq> [] \<longrightarrow>
            (\<exists>r. rows_for a' (bs_userId bsess) (tables_submissions (api_db api')) = [r]
                  \<and> repo_link r = last links'))
       \<and> (links' = [] \<longrightarrow> rows_for a' (bs_userId bsess) (tables_submissions (api_db api')) = [])"
proof -
  have inv: "length (rows_for a s (submissions db)) \<le> 1"
    using server(2) by simp
  have binv: "length (rows_for a' (bs_userId bsess) (tables_submissions (api_db api))) \<le> 1"
    using browser(2) by simp
  show ?thesis
    using server_run [OF server(1) inv server(3)] server(2)
      browser_run [OF browser(1) binv browser(3)] browser(2)
    by auto
qed

lemma server_three_calls:
  "fst (post_submissions \<lparr>foreign_keys = False, on_delete = NoAction\<rparr> sample_parse_date
            stud2_session ''assign2'' (sample_data ''h'' 0) three_calls)
     = [''https://github.com/s/x'', ''https://github.com/s/y'']"
  by (simp add: three_calls_def post_submission_def requireRole_def stud2_session_def falsy_def
        sample_data_def sample_parse_date_def date_gt_def upsert_submission_def Let_def)

lemma browser_three_calls:
  "fst (createSubmissions stud1_api ''assign2'' three_calls)
     = [''https://github.com/s/x'', ''https://github.com/s/y'', ''https://github.com/s/z'']"
  by (simp add: three_calls_def createSubmission_def is_student_def stud1_api_eq initial_api_def
        createIndexes_def initial_tables_def query_insert query_update executeUpdate_def
        update_dispatch updateIndexes_submissions_def param_def text_of_def Let_def
        del: includes_str.simps)

theorem C1_one_row_with_last_link_witness:
  "userId stud2_session = Some ''stud2''
   \<and> rows_for ''assign2'' ''stud2'' (submissions (sample_data ''h'' 0)) = []
   \<and> fst (post_submissions \<lparr>foreign_keys = False, on_delete = NoAction\<rparr> sample_parse_date
            stud2_session ''assign2'' (sample_data ''h'' 0) three_calls)
       = [''https://github.com/s/x'', ''https://github.com/s/y'']
   \<and> (\<exists>r. rows_for ''assign2'' ''stud2''
             (submissions (snd (post_submissions \<lparr>foreign_keys = False, on_delete = NoAction\<rparr>
                sample_parse_date stud2_session ''assign2'' (sample_data ''h'' 0) three_calls)))
           = [r] \<and> repo_link r = ''https://github.com/s/y'')
   \<and> rows_for ''assign2'' ''stud1'' (tables_submissions (api_db stud1_api)) = []
   \<and> fst (createSubmissions stud1_api ''assign2'' three_calls)
       = [''https://github.com/s/x'', ''https://github.com/s/y'', ''https://github.com/s/z'']
   \<and> (\<exists>r. rows_for ''assign2'' ''stud1''
             (tables_submissions (api_db (snd (createSubmissions stud1_api ''assign2'' three_calls))))
           = [r] \<and> repo_link r = ''https://github.com/s/z'')"
proof -
  let ?run = "post_submissions \<lparr>foreign_keys = False, on_delete = NoAction\<rparr> sample_parse_date
            stud2_session ''assign2'' (sample_data ''h'' 0) three_calls"
  let ?brun = "createSubmissions stud1_api ''assign2'' three_calls"
  let ?bsess = "\<lparr>bs_userId = ''stud1'',
       bs_user = \<lparr>u_id = ''stud1'', email = ''john.doe@university.edu'', password_hash = sample_hash,
          name = ''John Doe'', role = ''student'', u_created_at = 20250120103000\<rparr>,
       bs_createdAt = 20260101090000\<rparr>"
  have s1: "userId stud2_session = Some ''stud2''"
    by (simp add: stud2_session_def)
  have s2: "rows_for ''assign2'' ''stud2'' (submissions (sample_data ''h'' 0)) = []"
    by (simp add: rows_for_def sample_data_def)
  have s3: "?run = (fst ?run, snd ?run)"
    by simp
  have b1: "currentSession stud1_api = Some ?bsess"
    by (simp add: stud1_api_eq)
  have b2: "rows_for ''assign2'' (bs_userId ?bsess) (tables_submissions (api_db stud1_api)) = []"
    by (simp add: rows_for_def stud1_api_eq initial_api_def createIndexes_def initial_tables_def)
  have b3: "?brun = (fst ?brun, snd ?brun)"
    by simp
  show ?thesis
    using s1 s2 b2 C1_one_row_with_last_link [OF s1 s2 s3 b1 b2 b3]
    by (simp add: server_three_calls browser_three_calls)
qed

text \<open>
  The claim as it was stated promises exactly one row after every sequence. A sequence
  whose calls are all rejected leaves none: here the only call comes after the deadline.
\<close>

theorem C1_all_rejected_counterexample:
  "rows_for ''assign1'' ''stud2'' (submissions (sample_data ''h'' 0)) = []
   \<and> post_submissions \<lparr>foreign_keys = False, on_delete = NoAction\<rparr> sample_parse_date
        stud2_session ''assign1'' (sample_data ''h'' 0)
        [\<lparr>call_link = ''https://github.com/s/x'', call_now = 20251001120000,
          call_new_id = ''id-1''\<rparr>]
      = ([], sample_data ''h'' 0)
   \<and> length (rows_for ''assign1'' ''stud2''
        (submissions (snd (post_submissions \<lparr>foreign_keys = False, on_delete = NoAction\<rparr>
           sample_parse_date stud2_session ''assign1'' (sample_data ''h'' 0)
           [\<lparr>call_link = ''https://github.com/s/x'', call_now = 20251001120000,
             call_new_id = ''id-1''\<rparr>])))) = 0"
  by (simp add: rows_for_def post_submission_def requireRole_def stud2_session_def falsy_def
        sample_data_def sample_parse_date_def date_gt_def)

subsection \<open>Submitting after the deadline\<close>





subsection \<open>Validating the repository link\<close>

text \<open>
  What the form does turn away: a text that is not a URL, and a text without
  \<open>github.com\<close> in it.
\<close>

lemma form_rejects:
  assumes "url_host l = None \<or> \<not> includes_str l ''github.com''"
  shows "submission_form_submit url_host api a l now new_id = (Inl ValidationError, api)"
  using assms
  by (auto simp: submission_form_submit_def split: option.splits simp del: includes_str.simps)

text \<open>
  Claim C3: a link that is not a URL, or is a URL whose host is not a GitHub domain, fails
  with \<open>ValidationError\<close> and stores nothing, and every URL on a GitHub domain passes. The
  form looks for the text \<open>github.com\<close> in the whole link, so a URL on \<open>example.org\<close>
  with that text in its path is stored, and a URL whose host is written \<open>GitHub.com\<close> is
  turned away; the server's handler does not look at the link beyond its being non-empty
  and stores a text that is no URL at all.
\<close>

theorem C3_substring_not_host:
  "sample_url_host ''https://example.org/github.com/repo'' = Some ''example.org''
   \<and> \<not> is_github_domain ''example.org''
   \<and> fst (submission_form_submit sample_url_host stud1_api ''assign2''
             ''https://example.org/github.com/repo'' 20250901120000 ''id_1'')
       = Inr (Submission_row \<lparr>s_id = ''id_1'', assignment_id = ''assign2'', student_id = ''stud1'',
               repo_link = ''https://example.org/github.com/repo'',
               submitted_at = 20250901120000, status = ''submitted''\<rparr>)
   \<and> map repo_link (tables_submissions (api_db (snd (submission_form_submit sample_url_host
             stud1_api ''assign2'' ''https://example.org/github.com/repo'' 20250901120000 ''id_1''))))
       = [''https://github.com/johndoe/web-dev-project'', ''https://example.org/github.com/repo'']
   \<and> sample_url_host ''https://GitHub.com/johndoe/repo'' = Some ''github.com''
   \<and> is_github_domain ''github.com''
   \<and> submission_form_submit sample_url_host stud1_api ''assign2''
         ''https://GitHub.com/johndoe/repo'' 20250901120000 ''id_1''
       = (Inl ValidationError, stud1_api)
   \<and> sample_url_host ''see my repo'' = None
   \<and> fst (post_submission \<lparr>foreign_keys = False, on_delete = NoAction\<rparr> sample_parse_date
             (sample_data ''h'' 0) stud2_session (Some ''assign2'') (Some ''see my repo'')
             20250901120000 ''uuid-1'') = Inr ()
   \<and> map repo_link (submissions (snd (post_submission \<lparr>foreign_keys = False, on_delete = NoAction\<rparr>
             sample_parse_date (sample_data ''h'' 0) stud2_session (Some ''assign2'')
             (Some ''see my repo'') 20250901120000 ''uuid-1'')))
       = [''https://github.com/johndoe/web-dev-project'', ''see my repo'']"
proof -
  have browser_in:
    "submission_form_submit sample_url_host stud1_api ''assign2''
       ''https://example.org/github.com/repo'' 20250901120000 ''id_1''
     = createSubmission stud1_api ''assign2'' ''https://example.org/github.com/repo''
         20250901120000 ''id_1''"
    by (simp add: submission_form_submit_def sample_url_host_def)
  have created:
    "fst (createSubmission stud1_api ''assign2'' ''https://example.org/github.com/repo''
         20250901120000 ''id_1'')
       = Inr (Submission_row \<lparr>s_id = ''id_1'', assignment_id = ''assign2'', student_id = ''stud1'',
               repo_link = ''https://example.org/github.com/repo'',
               submitted_at = 20250901120000, status = ''submitted''\<rparr>)"
    "map repo_link (tables_submissions (api_db (snd (createSubmission stud1_api ''assign2''
         ''https://example.org/github.com/repo'' 20250901120000 ''id_1''))))
       = [''https://github.com/johndoe/web-dev-project'', ''https://example.org/github.com/repo'']"
    by (simp_all add: createSubmission_def is_student_def stud1_api_eq initial_api_def
        createIndexes_def initial_tables_def query_insert Let_def updateIndexes_submissions_def)
  have browser_out:
    "submission_form_submit sample_url_host stud1_api ''assign2''
         ''https://GitHub.com/johndoe/repo'' 20250901120000 ''id_1''
       = (Inl ValidationError, stud1_api)"
    by (simp add: submission_form_submit_def sample_url_host_def)
  have server:
    "fst (post_submission \<lparr>foreign_keys = False, on_delete = NoAction\<rparr> sample_parse_date
             (sample_data ''h'' 0) stud2_session (Some ''assign2'') (Some ''see my repo'')
             20250901120000 ''uuid-1'') = Inr ()"
    "map repo_link (submissions (snd (post_submission \<lparr>foreign_keys = False, on_delete = NoAction\<rparr>
             sample_parse_date (sample_data ''h'' 0) stud2_session (Some ''assign2'')
             (Some ''see my repo'') 20250901120000 ''uuid-1'')))
       = [''https://github.com/johndoe/web-dev-project'', ''see my repo'']"
    by (simp_all add: post_submission_def requireRole_def stud2_session_def falsy_def
        sample_data_def sample_parse_date_def date_gt_def upsert_submission_def Let_def)
  have urls:
    "sample_url_host ''https://example.org/github.com/repo'' = Some ''example.org''"
    "\<not> is_github_domain ''example.org''"
    "sample_url_host ''https://GitHub.com/johndoe/repo'' = Some ''github.com''"
    "is_github_domain ''github.com''"
    "sample_url_host ''see my repo'' = None"
    by (simp_all add: sample_url_host_def is_github_domain_def suffix_def)
  show ?thesis
    unfolding browser_in using created browser_out server urls by blast
qed

subsection \<open>Listing assignments and submissions\<close>

lemma push_index_fold:
  "foldl (\<lambda>m a. push_index m (key a) a) m0 rows k
   = (if filter (\<lambda>a. key a = k) rows = [] then m0 k
      else Some ((case m0 k of None \<Rightarrow> [] | Some vs \<Rightarrow> vs) @ filter (\<lambda>a. key a = k) rows))"
  by (induction rows rule: rev_induct) (auto simp: push_index_def split: option.splits)

text \<open>
  In the browser layer, with the index \<open>createIndexes\<close> and \<open>updateIndexes\<close> maintain,
  a professor is shown exactly the assignments they created and anyone else the whole table.
\<close>

lemma browser_professor_sees_own:
  assumes index: "indexed (api_db api)"
    and caller: "currentSession api = Some bsess" "role (bs_user bsess) = ''professor''"
  shows "listed_assignments (fst (getAssignments api now))
         = filter (\<lambda>a. created_by a = bs_userId bsess) (tables_assignments (api_db api))"
  using caller index
  by (simp add: getAssignments_def is_professor_def query_by_creator listed_assignments_def
      index_get_def param_def indexed_def push_index_fold)

lemma browser_student_sees_all:
  assumes "\<not> is_professor (currentSession api)"
  shows "listed_assignments (fst (getAssignments api now)) = tables_assignments (api_db api)"
  using assms
  by (simp add: getAssignments_def query_all_assignments listed_assignments_def)

text \<open>
  Claim C4: \<open>listAssignments\<close> returns to a professor exactly the assignments they
  created. The server's handler does not: in a database provisioned with a second
  professor, professor \<open>prof1\<close> is sent \<open>assign3\<close>, which \<open>prof2\<close> created.
\<close>

theorem C4_professor_sees_all:
  "map_sum id (map (\<lambda>(a, creator). (a_id a, created_by a)))
     (get_assignments two_professors prof1_session)
   = Inr [(''assign3'', ''prof2''), (''assign1'', ''prof1''), (''assign2'', ''prof1'')]"
  by (simp add: get_assignments_def two_professors_def sample_data_def prof1_session_def
      requireAuth_def falsy_def join_users_def order_by_desc_def Let_def)

lemma order_by_desc_same_rows:
  "set (order_by_desc col rows) = set rows \<and> length (order_by_desc col rows) = length rows"
  by (simp add: order_by_desc_def)

lemma order_by_desc_newest_first: "newest_first (map col (order_by_desc col rows))"
proof -
  have "sorted (map (\<lambda>r. - col r) (sort_key (\<lambda>r. - col r) rows))"
    by (rule sorted_sort_key)
  then show ?thesis
    by (simp add: newest_first_def order_by_desc_def sorted_wrt_map)
qed

text \<open>On the server both listings are sorted most recent first.\<close>

lemma server_listings_newest_first:
  "get_assignments db sess = Inr rows \<Longrightarrow> newest_first (map (\<lambda>(a, creator). a_created_at a) rows)"
  "get_submissions db sess = Inr views \<Longrightarrow> newest_first (map (\<lambda>v. submitted_at (sv_row v)) views)"
proof -
  assume "get_assignments db sess = Inr rows"
  then have "rows = map (\<lambda>(a, u). (a, name u))
                 (order_by_desc (\<lambda>(a, u). a_created_at a)
                    (join_users created_by (assignments db) (users db)))"
    by (auto simp: get_assignments_def split: option.splits)
  then have "map (\<lambda>(a, creator). a_created_at a) rows
     = map (\<lambda>(a, u). a_created_at a) (order_by_desc (\<lambda>(a, u). a_created_at a)
                    (join_users created_by (assignments db) (users db)))"
    by (simp add: case_prod_unfold comp_def)
  then show "newest_first (map (\<lambda>(a, creator). a_created_at a) rows)"
    by (simp add: order_by_desc_newest_first)
next
  assume views: "get_submissions db sess = Inr views"
  show "newest_first (map (\<lambda>v. submitted_at (sv_row v)) views)"
  proof (cases "userRole sess = Some ''professor''")
    case True
    then have "map (\<lambda>v. submitted_at (sv_row v)) views
      = map (\<lambda>((s, u), a). submitted_at s) (order_by_desc (\<lambda>((s, u), a). submitted_at s)
                         (join_assignments (\<lambda>(s, u). assignment_id s)
                            (join_users student_id (submissions db) (users db))
                            (assignments db)))"
      using views
      by (auto simp: get_submissions_def case_prod_unfold comp_def split: option.splits)
    then show ?thesis by (simp add: order_by_desc_newest_first)
  next
    case False
    then have "map (\<lambda>v. submitted_at (sv_row v)) views
      = map (\<lambda>(s, a). submitted_at s) (order_by_desc (\<lambda>(s, a). submitted_at s)
                         (filter (\<lambda>(s, a). Some (student_id s) = userId sess)
                            (join_assignments assignment_id (submissions db)
                               (assignments db))))"
      using views
      by (auto simp: get_submissions_def case_prod_unfold comp_def split: option.splits)
    then show ?thesis by (simp add: order_by_desc_newest_first)
  qed
qed

text \<open>
  Claim C5: the list of \<open>listAssignments\<close> and that of \<open>listSubmissions\<close> are sorted
  most recent first. The browser layer returns rows in the order they were stored: right
  after the constructor, student \<open>stud1\<close> is shown the assignment of 20 August before the
  one of 22 August, and after a submission on 1 September their submission of 25 August
  before the new one.
\<close>

theorem C5_browser_oldest_first:
  "map a_created_at (listed_assignments (fst (getAssignments stud1_api 20260101090100)))
     = [20250820100000, 20250822143000]
   \<and> \<not> newest_first [20250820100000, 20250822143000]
   \<and> map submitted_at (listed_submissions (fst (getSubmissions
         (snd (createSubmission stud1_api ''assign2'' ''https://github.com/johndoe/db''
                 20250901120000 ''id_1'')) 20250901120100)))
     = [20250825163000, 20250901120000]
   \<and> \<not> newest_first [20250825163000, 20250901120000]"
proof -
  have assignments:
    "map a_created_at (listed_assignments (fst (getAssignments stud1_api 20260101090100)))
     = [20250820100000, 20250822143000]"
    by (simp add: stud1_api_eq getAssignments_def is_professor_def query_all_assignments
      listed_assignments_def initial_api_def createIndexes_def initial_tables_def)
  have submissions:
    "map submitted_at (listed_submissions (fst (getSubmissions
         (snd (createSubmission stud1_api ''assign2'' ''https://github.com/johndoe/db''
                 20250901120000 ''id_1'')) 20250901120100)))
     = [20250825163000, 20250901120000]"
    by (simp add: stud1_api_eq getSubmissions_def createSubmission_def is_professor_def
      is_student_def query_by_student query_insert listed_submissions_def initial_api_def
      createIndexes_def initial_tables_def updateIndexes_submissions_def push_index_def
      index_get_def param_def rows_at_def Let_def)
  show ?thesis
    using assignments submissions by (simp add: newest_first_def)
qed

subsection \<open>Deleting an assignment\<close>

text \<open>
  Had the connection enforced foreign keys on a file created with the initialisation
  script's schema, a successful deletion would leave no submission behind.
\<close>

lemma delete_cascades_when_enforced:
  assumes "foreign_keys cfg" "on_delete cfg = Cascade"
    and "delete_assignment cfg db sess assignmentId = (Inr ok, db')"
  shows "\<not> (\<exists>s \<in> set (submissions db'). assignment_id s = assignmentId)"
    and "\<not> (\<exists>a \<in> set (assignments db'). owned_by assignmentId (userId sess) a)"
  using assms
  by (auto simp: delete_assignment_def Let_def split: option.splits if_splits)

text \<open>
  Claim C6: a successful \<open>deleteAssignment\<close> by the owner removes the assignment and every
  submission that references it. On the sample data, with the connection as the server
  opens it (foreign keys not enforced), professor \<open>prof1\<close> deletes \<open>assign1\<close>: the reply
  is the success, the assignment is gone, and submission \<open>sub1\<close> still references it,
  whichever of the two schemas created the file. Were the foreign keys enforced under the
  server's own schema, the deletion would be refused and nothing removed.
\<close>

theorem C6_delete_leaves_submissions:
  "fst (delete_assignment \<lparr>foreign_keys = False, on_delete = NoAction\<rparr>
          (sample_data ''h'' 0) prof1_session ''assign1'') = Inr ()
   \<and> map a_id (assignments (snd (delete_assignment \<lparr>foreign_keys = False, on_delete = NoAction\<rparr>
          (sample_data ''h'' 0) prof1_session ''assign1''))) = [''assign2'']
   \<and> map (\<lambda>s. (s_id s, assignment_id s))
        (submissions (snd (delete_assignment \<lparr>foreign_keys = False, on_delete = NoAction\<rparr>
          (sample_data ''h'' 0) prof1_session ''assign1''))) = [(''sub1'', ''assign1'')]
   \<and> delete_assignment \<lparr>foreign_keys = False, on_delete = Cascade\<rparr>
          (sample_data ''h'' 0) prof1_session ''assign1''
     = delete_assignment \<lparr>foreign_keys = False, on_delete = NoAction\<rparr>
          (sample_data ''h'' 0) prof1_session ''assign1''
   \<and> delete_assignment \<lparr>foreign_keys = True, on_delete = NoAction\<rparr>
          (sample_data ''h'' 0) prof1_session ''assign1''
     = (Inl InternalError, sample_data ''h'' 0)"
  by (simp add: delete_assignment_def sample_data_def prof1_session_def requireRole_def
      falsy_def owned_by_def Let_def)

subsection \<open>Owner-only mutations\<close>

text \<open>
  Claim C7, as amended. A professor names an assignment id under which they own no
  assignment (the id may not exist at all). Then \<open>deleteAssignment\<close> fails with
  \<open>NotFoundOrForbidden\<close>, and so does \<open>updateAssignment\<close> when title and deadline are
  present; the database after the call is the database before it.
\<close>

theorem C7_not_owned_rejected:
  assumes caller: "\<not> falsy (userId sess)" "userRole sess = Some ''professor''"
    and nobody: "\<not> (\<exists>a \<in> set (assignments db). owned_by assignmentId (userId sess) a)"
    and fields: "\<not> falsy title'" "\<not> falsy deadline'"
  shows "put_assignment db sess assignmentId title' description' deadline' instructions'
           = (Inl NotFoundOrForbidden, db)
       \<and> delete_assignment cfg db sess assignmentId = (Inl NotFoundOrForbidden, db)"
proof -
  let ?hit = "owned_by assignmentId (userId sess)"
  have gate: "requireRole ''professor'' sess = None"
    using caller by (rule requireRole_ok)
  have none: "filter ?hit (assignments db) = []"
    using nobody by (rule no_hit_filter)
  then have zero: "length (filter ?hit (assignments db)) = 0"
    by simp
  have same_map: "map (\<lambda>a. if ?hit a then f a else a) (assignments db) = assignments db" for f
    using zero by (rule map_none_hit)
  have same_filter: "filter (\<lambda>a. \<not> ?hit a) (assignments db) = assignments db"
    using zero by (rule filter_none_length)
  have "put_assignment db sess assignmentId title' description' deadline' instructions'
           = (Inl NotFoundOrForbidden, db)"
    using fields by (simp add: put_assignment_def gate none same_map Let_def)
  moreover have "delete_assignment cfg db sess assignmentId = (Inl NotFoundOrForbidden, db)"
    by (simp add: delete_assignment_def gate none same_filter Let_def)
  ultimately show ?thesis by simp
qed

theorem C7_not_owned_rejected_witness:
  "(\<not> falsy (userId prof1_session) \<and> userRole prof1_session = Some ''professor''
    \<and> \<not> (\<exists>a \<in> set (assignments (sample_data ''h'' 0)).
            owned_by ''assign9'' (userId prof1_session) a)
    \<and> \<not> falsy (Some ''T'') \<and> \<not> falsy (Some ''2026-01-01''))
   \<and> put_assignment (sample_data ''h'' 0) prof1_session ''assign9''
        (Some ''T'') None (Some ''2026-01-01'') None
      = (Inl NotFoundOrForbidden, sample_data ''h'' 0)
   \<and> delete_assignment \<lparr>foreign_keys = False, on_delete = NoAction\<rparr>
        (sample_data ''h'' 0) prof1_session ''assign9''
      = (Inl NotFoundOrForbidden, sample_data ''h'' 0)"
proof -
  have a: "\<not> falsy (userId prof1_session)" "userRole prof1_session = Some ''professor''"
    by (simp_all add: prof1_session_def falsy_def)
  have b: "\<not> (\<exists>a \<in> set (assignments (sample_data ''h'' 0)).
              owned_by ''assign9'' (userId prof1_session) a)"
    by (simp add: sample_data_def owned_by_def)
  have c: "\<not> falsy (Some ''T'')" "\<not> falsy (Some ''2026-01-01'')"
    by (simp_all add: falsy_def)
  show ?thesis
    using a b c C7_not_owned_rejected [OF a b c] by simp
qed

text \<open>
  The claim as it was stated fails for \<open>updateAssignment\<close>: the handler checks the fields
  first, so professor \<open>prof1\<close> updating the id \<open>assign9\<close>, which no assignment has, with
  an empty title is answered with the validation error and not with
  \<open>NotFoundOrForbidden\<close>.
\<close>

theorem C7_empty_title_counterexample:
  "\<not> falsy (userId prof1_session) \<and> userRole prof1_session = Some ''professor''
   \<and> map a_id (assignments (sample_data ''h'' 0)) = [''assign1'', ''assign2'']
   \<and> filter (owned_by ''assign9'' (userId prof1_session)) (assignments (sample_data ''h'' 0)) = []
   \<and> fst (put_assignment (sample_data ''h'' 0) prof1_session ''assign9''
            (Some '''') None (Some ''2026-01-01'') None) = Inl ValidationError
   \<and> fst (put_assignment (sample_data ''h'' 0) prof1_session ''assign9''
            (Some '''') None (Some ''2026-01-01'') None) \<noteq> Inl NotFoundOrForbidden"
  by (simp add: put_assignment_def prof1_session_def sample_data_def requireRole_def
      falsy_def owned_by_def)

subsection \<open>Login\<close>

lemma email_index_lookup:
  "foldl (\<lambda>m u. m(email u \<mapsto> u)) m0 us e
   = (case find (\<lambda>u. email u = e) (rev us) of Some u \<Rightarrow> Some u | None \<Rightarrow> m0 e)"
  by (induction us rule: rev_induct) auto

lemma email_index_none:
  assumes "\<not> (\<exists>u \<in> set us. email u = e)"
  shows "foldl (\<lambda>m u. m(email u \<mapsto> u)) Map.empty us e = None"
proof -
  have "find (\<lambda>u. email u = e) (rev us) = None"
    using assms by (simp add: find_none_iff)
  then show ?thesis by (simp add: email_index_lookup)
qed

lemma email_index_some:
  assumes "foldl (\<lambda>m u. m(email u \<mapsto> u)) Map.empty us e = Some u"
  shows "u \<in> set us \<and> email u = e"
proof -
  have "find (\<lambda>u. email u = e) (rev us) = Some u"
    using assms by (simp add: email_index_lookup split: option.splits)
  then show ?thesis using find_first_hit [of "\<lambda>u. email u = e" "rev us" u] by simp
qed

lemma post_login_rejects:
  assumes "e \<noteq> []" "p \<noteq> []"
    and "\<forall>u \<in> set (users db). email u = e \<longrightarrow> \<not> bcrypt_compare p (password_hash u)"
  shows "post_login bcrypt_compare db sess (Some e) (Some p) = (Inl InvalidCredentials, sess)"
proof (cases "find (\<lambda>u. email u = e) (users db)")
  case None
  then show ?thesis using assms by (simp add: post_login_def falsy_def)
next
  case (Some u)
  then have "u \<in> set (users db) \<and> email u = e" by (rule find_first_hit)
  then have "\<not> bcrypt_compare p (password_hash u)" using assms(3) by blast
  then show ?thesis using Some assms(1,2) by (simp add: post_login_def falsy_def)
qed

lemma post_login_profile:
  assumes "post_login bcrypt_compare db sess email' password' = (Inr profile, sess')"
  shows "''password_hash'' \<notin> fst ` set profile \<and> \<not> carries_hash profile"
  using assms
  by (auto simp: post_login_def carries_hash_def split: if_splits option.splits)

lemma login_rejects:
  assumes index: "indexed (api_db api)"
    and wrong: "\<forall>u \<in> set (tables_users (api_db api)).
                  email u = e \<longrightarrow> verifyPassword p (password_hash u) = Inr False"
  shows "login api e p now = (Inl InvalidCredentials, api)"
proof (cases "users_email (api_db api) e")
  case None
  then show ?thesis
    by (simp add: login_def query_login index_get_def param_def)
next
  case (Some u)
  then have "foldl (\<lambda>m u. m(email u \<mapsto> u)) Map.empty (tables_users (api_db api)) e = Some u"
    using index by (simp add: indexed_def)
  then have "u \<in> set (tables_users (api_db api)) \<and> email u = e"
    by (rule email_index_some)
  then have "verifyPassword p (password_hash u) = Inr False"
    using wrong by blast
  then show ?thesis using Some
    by (simp add: login_def query_login index_get_def param_def)
qed

lemma post_login_accepts:
  assumes "e \<noteq> []" "p \<noteq> []"
    and "find (\<lambda>u. email u = e) (users db) = Some u"
    and "bcrypt_compare p (password_hash u)"
  shows "post_login bcrypt_compare db sess (Some e) (Some p)
         = (Inr [(''id'', JStr (u_id u)), (''email'', JStr (email u)),
                 (''name'', JStr (name u)), (''role'', JStr (role u))],
            sess\<lparr>userId := Some (u_id u), userRole := Some (role u)\<rparr>)"
  using assms by (simp add: post_login_def falsy_def)

lemma login_accepts:
  assumes index: "indexed (api_db api)"
    and found: "find (\<lambda>u. email u = e) (rev (tables_users (api_db api))) = Some u"
    and verified: "verifyPassword q (password_hash u) = Inr True"
  shows "login api e q now
         = (Inr (with_key (spread_user u) ''password_hash'' JUndefined,
                 \<lparr>bs_userId = u_id u, bs_user = u, bs_createdAt = now\<rparr>),
            api\<lparr>currentSession :=
                  Some \<lparr>bs_userId = u_id u, bs_user = u, bs_createdAt = now\<rparr>\<rparr>)"
proof -
  have "users_email (api_db api) e = Some u"
    using index found by (simp add: indexed_def email_index_lookup)
  then show ?thesis
    using verified by (simp add: login_def query_login index_get_def param_def Let_def)
qed

lemma login_profile:
  assumes "login api e p now = (Inr (profile, s), api')"
  shows "\<not> carries_hash profile" and "map_of profile ''password_hash'' = Some JUndefined"
proof -
  obtain u where u: "profile = with_key (spread_user u) ''password_hash'' JUndefined"
    using assms
    by (auto simp: login_def query_login index_get_def param_def Let_def
        split: option.splits sum.splits if_splits)
  show "\<not> carries_hash profile"
    using u by (simp add: with_key_def spread_user_def carries_hash_def)
  show "map_of profile ''password_hash'' = Some JUndefined"
    using u by (simp add: with_key_def spread_user_def)
qed

text \<open>
  Claim C9, as amended. On the server, a login with an empty email or password fails with
  the validation error; with both given it fails with \<open>InvalidCredentials\<close> when no user
  has exactly that email, and when the password does not verify against the stored hash of
  the user who has; when it verifies, the reply is the user's id, email, name and role and
  the session is bound to the user's id and role; a successful reply has no
  \<open>password_hash\<close> key. In the browser layer, in a state whose indexes agree with its
  tables, login with any email and password fails with \<open>InvalidCredentials\<close> when no user
  has that email, and when \<open>verifyPassword\<close> returns false for the stored hash; when it
  returns true the login succeeds; the user object of a successful reply has the key
  \<open>password_hash\<close> with the value \<open>undefined\<close>.
\<close>

theorem C9_login:
  assumes index: "indexed (api_db api)"
  shows "(e = [] \<or> p = []
            \<longrightarrow> post_login bcrypt_compare db sess (Some e) (Some p) = (Inl ValidationError, sess))
       \<and> (e \<noteq> [] \<and> p \<noteq> [] \<and> \<not> (\<exists>u \<in> set (users db). email u = e)
            \<longrightarrow> post_login bcrypt_compare db sess (Some e) (Some p) = (Inl InvalidCredentials, sess))
       \<and> (e \<noteq> [] \<and> p \<noteq> []
            \<and> (\<forall>u \<in> set (users db). email u = e \<longrightarrow> \<not> bcrypt_compare p (password_hash u))
            \<longrightarrow> post_login bcrypt_compare db sess (Some e) (Some p) = (Inl InvalidCredentials, sess))
       \<and> (e \<noteq> [] \<and> p \<noteq> [] \<and> find (\<lambda>u. email u = e) (users db) = Some u
            \<and> bcrypt_compare p (password_hash u)
            \<longrightarrow> post_login bcrypt_compare db sess (Some e) (Some p)
                = (Inr [(''id'', JStr (u_id u)), (''email'', JStr (email u)),
                        (''name'', JStr (name u)), (''role'', JStr (role u))],
                   sess\<lparr>userId := Some (u_id u), userRole := Some (role u)\<rparr>))
       \<and> (\<forall>profile sess'. post_login bcrypt_compare db sess (Some e) (Some p) = (Inr profile, sess')
            \<longrightarrow> ''password_hash'' \<notin> fst ` set profile \<and> \<not> carries_hash profile)
       \<and> (\<not> (\<exists>u \<in> set (tables_users (api_db api)). email u = e)
            \<longrightarrow> login api e q now = (Inl InvalidCredentials, api))
       \<and> ((\<forall>u \<in> set (tables_users (api_db api)).
               email u = e \<longrightarrow> verifyPassword q (password_hash u) = Inr False)
            \<longrightarrow> login api e q now = (Inl InvalidCredentials, api))
       \<and> (find (\<lambda>u. email u = e) (rev (tables_users (api_db api))) = Some v
            \<and> verifyPassword q (password_hash v) = Inr True
            \<longrightarrow> login api e q now
                = (Inr (with_key (spread_user v) ''password_hash'' JUndefined,
                        \<lparr>bs_userId = u_id v, bs_user = v, bs_createdAt = now\<rparr>),
                   api\<lparr>currentSession :=
                         Some \<lparr>bs_userId = u_id v, bs_user = v, bs_createdAt = now\<rparr>\<rparr>))
       \<and> (\<forall>profile s api'. login api e q now = (Inr (profile, s), api')
            \<longrightarrow> \<not> carries_hash profile \<and> map_of profile ''password_hash'' = Some JUndefined)"
proof -
  have s0: "post_login bcrypt_compare db sess (Some e) (Some p) = (Inl ValidationError, sess)"
    if "e = [] \<or> p = []"
    using that by (auto simp: post_login_def falsy_def)
  have s1: "post_login bcrypt_compare db sess (Some e) (Some p) = (Inl InvalidCredentials, sess)"
    if "e \<noteq> [] \<and> p \<noteq> [] \<and> \<not> (\<exists>u \<in> set (users db). email u = e)"
    using that post_login_rejects [of e p db bcrypt_compare sess] by blast
  have s2: "post_login bcrypt_compare db sess (Some e) (Some p) = (Inl InvalidCredentials, sess)"
    if "e \<noteq> [] \<and> p \<noteq> []
        \<and> (\<forall>u \<in> set (users db). email u = e \<longrightarrow> \<not> bcrypt_compare p (password_hash u))"
    using that post_login_rejects [of e p db bcrypt_compare sess] by blast
  have s3: "post_login bcrypt_compare db sess (Some e) (Some p)
                = (Inr [(''id'', JStr (u_id u)), (''email'', JStr (email u)),
                        (''name'', JStr (name u)), (''role'', JStr (role u))],
                   sess\<lparr>userId := Some (u_id u), userRole := Some (role u)\<rparr>)"
    if "e \<noteq> [] \<and> p \<noteq> [] \<and> find (\<lambda>u. email u = e) (users db) = Some u
            \<and> bcrypt_compare p (password_hash u)"
    using that post_login_accepts [of e p db u bcrypt_compare sess] by blast
  have s4: "''password_hash'' \<notin> fst ` set profile \<and> \<not> carries_hash profile"
    if "post_login bcrypt_compare db sess (Some e) (Some p) = (Inr profile, sess')"
    for profile sess'
    using that by (rule post_login_profile)
  have b1: "login api e q now = (Inl InvalidCredentials, api)"
    if "\<not> (\<exists>u \<in> set (tables_users (api_db api)). email u = e)"
    using that login_rejects [OF index, of e q now] by blast
  have b2: "login api e q now = (Inl InvalidCredentials, api)"
    if "\<forall>u \<in> set (tables_users (api_db api)).
               email u = e \<longrightarrow> verifyPassword q (password_hash u) = Inr False"
    using that login_rejects [OF index, of e q now] by blast
  have b3: "login api e q now
                = (Inr (with_key (spread_user v) ''password_hash'' JUndefined,
                        \<lparr>bs_userId = u_id v, bs_user = v, bs_createdAt = now\<rparr>),
                   api\<lparr>currentSession :=
                         Some \<lparr>bs_userId = u_id v, bs_user = v, bs_createdAt = now\<rparr>\<rparr>)"
    if "find (\<lambda>u. email u = e) (rev (tables_users (api_db api))) = Some v
            \<and> verifyPassword q (password_hash v) = Inr True"
    using that login_accepts [OF index, of e v q now] by blast
  have b4: "\<not> carries_hash profile \<and> map_of profile ''password_hash'' = Some JUndefined"
    if "login api e q now = (Inr (profile, s), api')" for profile s api'
    using login_profile [OF that] by simp
  show ?thesis
    using s0 s1 s2 s3 s4 b1 b2 b3 b4 by (intro conjI impI allI) blast+
qed

text \<open>
  On the sample data, for \<open>john.doe@university.edu\<close>: the wrong password is refused and
  the right one accepted, on the server (where the reply has four keys) and in the browser
  layer (where the user object of the reply has \<open>password_hash\<close> set to \<open>undefined\<close>); an
  email that no user has is refused by both; the empty email is answered with the validation
  error by the server and refused like any unknown email by the browser layer.
\<close>

theorem C9_login_witness:
  "indexed (api_db initial_api)
   \<and> map email (users (sample_data ''h'' 0))
       = [''prof.smith@university.edu'', ''john.doe@university.edu'', ''jane.smith@university.edu'']
   \<and> map (\<lambda>u. (email u, password_hash u)) (tables_users (api_db initial_api))
       = [(''prof.smith@university.edu'', sample_hash), (''john.doe@university.edu'', sample_hash),
          (''jane.smith@university.edu'', sample_hash)]
   \<and> \<not> sample_bcrypt_compare ''wrong'' ''h'' \<and> sample_bcrypt_compare ''password123'' ''h''
   \<and> verifyPassword (js ''wrong'') sample_hash = Inr False
   \<and> verifyPassword (js ''password123'') sample_hash = Inr True
   \<and> post_login sample_bcrypt_compare (sample_data ''h'' 0) anonymous
        (Some ''john.doe@university.edu'') (Some ''wrong'') = (Inl InvalidCredentials, anonymous)
   \<and> login initial_api ''john.doe@university.edu'' (js ''wrong'') 20260101090000
       = (Inl InvalidCredentials, initial_api)
   \<and> post_login sample_bcrypt_compare (sample_data ''h'' 0) anonymous
        (Some ''john.doe@university.edu'') (Some ''password123'')
       = (Inr [(''id'', JStr ''stud1''), (''email'', JStr ''john.doe@university.edu''),
               (''name'', JStr ''John Doe''), (''role'', JStr ''student'')],
          \<lparr>userId = Some ''stud1'', userRole = Some ''student''\<rparr>)
   \<and> map_sum id fst (fst (login initial_api ''john.doe@university.edu'' (js ''password123'')
                              20260101090000))
       = Inr [(''id'', JStr ''stud1''), (''email'', JStr ''john.doe@university.edu''),
              (''password_hash'', JUndefined), (''name'', JStr ''John Doe''),
              (''role'', JStr ''student''), (''created_at'', JTime 20250120103000)]
   \<and> post_login sample_bcrypt_compare (sample_data ''h'' 0) anonymous
        (Some ''nobody@university.edu'') (Some ''password123'') = (Inl InvalidCredentials, anonymous)
   \<and> login initial_api ''nobody@university.edu'' (js ''password123'') 20260101090000
       = (Inl InvalidCredentials, initial_api)
   \<and> post_login sample_bcrypt_compare (sample_data ''h'' 0) anonymous
        (Some '''') (Some ''password123'') = (Inl ValidationError, anonymous)
   \<and> login initial_api '''' (js ''password123'') 20260101090000
       = (Inl InvalidCredentials, initial_api)"
proof -
  let ?db = "sample_data ''h'' 0"
  let ?john = "''john.doe@university.edu''"
  have index: "indexed (api_db initial_api)"
    by (simp add: initial_api_def indexed_createIndexes)
  have emails: "map email (users ?db)
       = [''prof.smith@university.edu'', ''john.doe@university.edu'', ''jane.smith@university.edu'']"
    by (simp add: sample_data_def)
  have hashes: "map (\<lambda>u. (email u, password_hash u)) (tables_users (api_db initial_api))
       = [(''prof.smith@university.edu'', sample_hash), (''john.doe@university.edu'', sample_hash),
          (''jane.smith@university.edu'', sample_hash)]"
    by (simp add: initial_api_def createIndexes_def initial_tables_def)
  have compare: "\<not> sample_bcrypt_compare ''wrong'' ''h''" "sample_bcrypt_compare ''password123'' ''h''"
    by (simp_all add: sample_bcrypt_compare_def)
  have wrong: "verifyPassword (js ''wrong'') sample_hash = Inr False"
    by code_simp
  have right: "verifyPassword (js ''password123'') sample_hash = Inr True"
    by (simp add: verifyPassword_def sample_hash_is_hash)
  have server_wrong: "\<forall>u \<in> set (users ?db).
      email u = ?john \<longrightarrow> \<not> sample_bcrypt_compare ''wrong'' (password_hash u)"
    by (simp add: sample_bcrypt_compare_def)
  have browser_wrong: "\<forall>u \<in> set (tables_users (api_db initial_api)).
      email u = ?john \<longrightarrow> verifyPassword (js ''wrong'') (password_hash u) = Inr False"
    by (simp add: initial_api_def createIndexes_def initial_tables_def wrong)
  have server_found: "find (\<lambda>u. email u = ?john) (users ?db) = Some (users ?db ! 1)"
    "sample_bcrypt_compare ''password123'' (password_hash (users ?db ! 1))"
    by (simp_all add: sample_data_def sample_bcrypt_compare_def)
  have browser_found:
    "find (\<lambda>u. email u = ?john) (rev (tables_users (api_db initial_api)))
       = Some (tables_users (api_db initial_api) ! 1)"
    "verifyPassword (js ''password123'') (password_hash (tables_users (api_db initial_api) ! 1))
       = Inr True"
    by (simp_all add: initial_api_def createIndexes_def initial_tables_def right)
  have server_nobody: "\<not> (\<exists>u \<in> set (users ?db). email u = ''nobody@university.edu'')"
    by (simp add: sample_data_def)
  have browser_nobody:
    "\<not> (\<exists>u \<in> set (tables_users (api_db initial_api)). email u = ''nobody@university.edu'')"
    "\<not> (\<exists>u \<in> set (tables_users (api_db initial_api)). email u = '''')"
    by (simp_all add: initial_api_def createIndexes_def initial_tables_def)
  note rejected = C9_login [OF index, where e = ?john and p = "''wrong''" and q = "js ''wrong''"
      and db = ?db and bcrypt_compare = sample_bcrypt_compare and sess = anonymous
      and now = 20260101090000]
  note accepted = C9_login [OF index, where e = ?john and p = "''password123''"
      and q = "js ''password123''" and db = ?db and bcrypt_compare = sample_bcrypt_compare
      and sess = anonymous and now = 20260101090000 and u = "users ?db ! 1"
      and v = "tables_users (api_db initial_api) ! 1"]
  note unknown = C9_login [OF index, where e = "''nobody@university.edu''"
      and p = "''password123''" and q = "js ''password123''" and db = ?db
      and bcrypt_compare = sample_bcrypt_compare and sess = anonymous and now = 20260101090000]
  note empty = C9_login [OF index, where e = "''''" and p = "''password123''"
      and q = "js ''password123''" and db = ?db and bcrypt_compare = sample_bcrypt_compare
      and sess = anonymous and now = 20260101090000]
  have r1: "post_login sample_bcrypt_compare ?db anonymous (Some ?john) (Some ''wrong'')
       = (Inl InvalidCredentials, anonymous)"
    using rejected [THEN conjunct2, THEN conjunct2, THEN conjunct1] server_wrong by simp
  have r2: "login initial_api ?john (js ''wrong'') 20260101090000
       = (Inl InvalidCredentials, initial_api)"
    using rejected [THEN conjunct2, THEN conjunct2, THEN conjunct2, THEN conjunct2,
        THEN conjunct2, THEN conjunct2, THEN conjunct1] browser_wrong by blast
  have a1: "post_login sample_bcrypt_compare ?db anonymous (Some ?john) (Some ''password123'')
       = (Inr [(''id'', JStr ''stud1''), (''email'', JStr ''john.doe@university.edu''),
               (''name'', JStr ''John Doe''), (''role'', JStr ''student'')],
          \<lparr>userId = Some ''stud1'', userRole = Some ''student''\<rparr>)"
  proof -
    have "post_login sample_bcrypt_compare ?db anonymous (Some ?john) (Some ''password123'')
       = (Inr [(''id'', JStr (u_id (users ?db ! 1))), (''email'', JStr (email (users ?db ! 1))),
               (''name'', JStr (name (users ?db ! 1))), (''role'', JStr (role (users ?db ! 1)))],
          anonymous\<lparr>userId := Some (u_id (users ?db ! 1)),
                     userRole := Some (role (users ?db ! 1))\<rparr>)"
      using accepted [THEN conjunct2, THEN conjunct2, THEN conjunct2, THEN conjunct1]
        server_found by simp
    then show ?thesis
      by (simp add: sample_data_def anonymous_def)
  qed
  have a2: "map_sum id fst (fst (login initial_api ?john (js ''password123'') 20260101090000))
       = Inr [(''id'', JStr ''stud1''), (''email'', JStr ''john.doe@university.edu''),
              (''password_hash'', JUndefined), (''name'', JStr ''John Doe''),
              (''role'', JStr ''student''), (''created_at'', JTime 20250120103000)]"
  proof -
    have "fst (login initial_api ?john (js ''password123'') 20260101090000)
       = Inr (with_key (spread_user (tables_users (api_db initial_api) ! 1))
                ''password_hash'' JUndefined,
              \<lparr>bs_userId = u_id (tables_users (api_db initial_api) ! 1),
                bs_user = tables_users (api_db initial_api) ! 1,
                bs_createdAt = 20260101090000\<rparr>)"
      using accepted [THEN conjunct2, THEN conjunct2, THEN conjunct2, THEN conjunct2,
          THEN conjunct2, THEN conjunct2, THEN conjunct2, THEN conjunct1] browser_found
      by simp
    then show ?thesis
      by (simp add: initial_api_def createIndexes_def initial_tables_def with_key_def
          spread_user_def)
  qed
  have u1: "post_login sample_bcrypt_compare ?db anonymous (Some ''nobody@university.edu'')
        (Some ''password123'') = (Inl InvalidCredentials, anonymous)"
    using unknown [THEN conjunct2, THEN conjunct1] server_nobody by simp
  have u2: "login initial_api ''nobody@university.edu'' (js ''password123'') 20260101090000
       = (Inl InvalidCredentials, initial_api)"
    using unknown [THEN conjunct2, THEN conjunct2, THEN conjunct2, THEN conjunct2,
        THEN conjunct2, THEN conjunct1] browser_nobody(1) by blast
  have e1: "post_login sample_bcrypt_compare ?db anonymous (Some '''') (Some ''password123'')
       = (Inl ValidationError, anonymous)"
    using empty [THEN conjunct1] by simp
  have e2: "login initial_api '''' (js ''password123'') 20260101090000
       = (Inl InvalidCredentials, initial_api)"
    using empty [THEN conjunct2, THEN conjunct2, THEN conjunct2, THEN conjunct2,
        THEN conjunct2, THEN conjunct1] browser_nobody(2) by blast
  show ?thesis
    using index emails hashes compare wrong right r1 r2 a1 a2 u1 u2 e1 e2 by simp
qed

text \<open>
  The claim as it was stated fails in three ways. On the server an empty password or email
  is answered with the validation error, before the handler looks for the user. In the
  browser layer a password that \<open>btoa\<close> cannot encode ends the login of an existing user
  with the exception of \<open>btoa\<close>; and the reply to a successful login is the user object
  together with the session object, whose \<open>user\<close> is the stored row with its hash, while
  the user object itself keeps the key \<open>password_hash\<close>.
\<close>

theorem C9_empty_password_counterexample:
  "map email (users (sample_data ''h'' 0))
     = [''prof.smith@university.edu'', ''john.doe@university.edu'', ''jane.smith@university.edu'']
   \<and> \<not> sample_bcrypt_compare '''' ''h''
   \<and> fst (post_login sample_bcrypt_compare (sample_data ''h'' 0) anonymous
            (Some ''john.doe@university.edu'') (Some '''')) = Inl ValidationError
   \<and> fst (post_login sample_bcrypt_compare (sample_data ''h'' 0) anonymous
            (Some ''john.doe@university.edu'') (Some '''')) \<noteq> Inl InvalidCredentials
   \<and> fst (post_login sample_bcrypt_compare (sample_data ''h'' 0) anonymous
            (Some '''') (Some ''password123'')) = Inl ValidationError
   \<and> map email (tables_users (api_db initial_api))
     = [''prof.smith@university.edu'', ''john.doe@university.edu'', ''jane.smith@university.edu'']
   \<and> login initial_api ''john.doe@university.edu'' [0x43F, 0x430, 0x440, 0x43E, 0x43B, 0x44C]
         20260101090000
     = (Inl InvalidCharacterError, initial_api)
   \<and> map_sum id (\<lambda>(profile, s). (map fst profile, password_hash (bs_user s)))
       (fst (login initial_api ''john.doe@university.edu'' (js ''password123'') 20260101090000))
     = Inr ([''id'', ''email'', ''password_hash'', ''name'', ''role'', ''created_at''],
            ''$2b$10$cGFzc3dvcmQxMjNzYWx0'')
   \<and> hashPassword (js ''password123'') = Inr ''$2b$10$cGFzc3dvcmQxMjNzYWx0''"
proof -
  have server:
    "map email (users (sample_data ''h'' 0))
     = [''prof.smith@university.edu'', ''john.doe@university.edu'', ''jane.smith@university.edu'']"
    "\<not> sample_bcrypt_compare '''' ''h''"
    "fst (post_login sample_bcrypt_compare (sample_data ''h'' 0) anonymous
            (Some ''john.doe@university.edu'') (Some '''')) = Inl ValidationError"
    "fst (post_login sample_bcrypt_compare (sample_data ''h'' 0) anonymous
            (Some '''') (Some ''password123'')) = Inl ValidationError"
    by (simp_all add: post_login_def sample_data_def sample_bcrypt_compare_def falsy_def)
  have throws: "verifyPassword [0x43F, 0x430, 0x440, 0x43E, 0x43B, 0x44C] sample_hash
                = Inl InvalidCharacterError"
    by (simp add: hashPassword_def verifyPassword_def btoa_def)
  have browser:
    "map email (tables_users (api_db initial_api))
     = [''prof.smith@university.edu'', ''john.doe@university.edu'', ''jane.smith@university.edu'']"
    "login initial_api ''john.doe@university.edu'' [0x43F, 0x430, 0x440, 0x43E, 0x43B, 0x44C]
         20260101090000
     = (Inl InvalidCharacterError, initial_api)"
    by (simp_all add: login_def query_login initial_api_def createIndexes_def initial_tables_def
        index_get_def param_def throws)
  have hash: "hashPassword (js ''password123'') = Inr ''$2b$10$cGFzc3dvcmQxMjNzYWx0''"
    using sample_hash_is_hash by (simp add: sample_hash_def)
  have verified: "verifyPassword (js ''password123'') ''$2b$10$cGFzc3dvcmQxMjNzYWx0'' = Inr True"
    using hash by (simp add: verifyPassword_def)
  have reply:
    "map_sum id (\<lambda>(profile, s). (map fst profile, password_hash (bs_user s)))
       (fst (login initial_api ''john.doe@university.edu'' (js ''password123'') 20260101090000))
     = Inr ([''id'', ''email'', ''password_hash'', ''name'', ''role'', ''created_at''],
            ''$2b$10$cGFzc3dvcmQxMjNzYWx0'')"
    by (simp add: login_def query_login initial_api_def createIndexes_def initial_tables_def
        index_get_def param_def verified with_key_def spread_user_def Let_def sample_hash_def)
  show ?thesis
    using server browser reply hash by simp
qed

subsection \<open>The password hash of the browser layer\<close>

text \<open>
  For a password within Latin-1 the hash exists and verifies. The hash being a function of
  the password alone, it is the same on every call.
\<close>

lemma hashPassword_latin1:
  assumes "\<not> (\<exists>c \<in> set p. 255 < c)"
  shows "\<exists>h. hashPassword p = Inr h \<and> verifyPassword p h = Inr True"
proof -
  have "\<not> (\<exists>c \<in> set (p @ js ''salt''). 255 < c)"
    using assms by (simp add: js_def)
  then show ?thesis
    by (simp add: hashPassword_def verifyPassword_def btoa_def del: set_append)
qed

text \<open>
  Claim C10: for every password \<open>p\<close>, \<open>verifyPassword(p, hashPassword(p))\<close> returns true
  and \<open>hashPassword(p)\<close> gives the same hash on every call. The code does not reach that
  for a password with a character outside Latin-1: \<open>btoa\<close> throws, so \<open>hashPassword\<close>
  returns no hash and \<open>verifyPassword\<close> no verdict. The input below is a Cyrillic word
  of six letters.
\<close>

theorem C10_password_outside_latin1:
  "hashPassword [0x43F, 0x430, 0x440, 0x43E, 0x43B, 0x44C] = Inl InvalidCharacterError
   \<and> verifyPassword [0x43F, 0x430, 0x440, 0x43E, 0x43B, 0x44C] sample_hash
       = Inl InvalidCharacterError"
  by (simp add: hashPassword_def verifyPassword_def btoa_def)

end
